theory Spec2Isabelle
  imports Complex_Main
begin

section \<open>JSON-like values\<close>

text \<open>
  Queue messages, activity inputs and outputs, and the fragments an agent returns are
  Python objects built from \<^verbatim>\<open>None\<close>, booleans, numbers, strings, lists and dictionaries
  with string keys. A dictionary is an association list; a key is looked up with
  \<^const>\<open>map_of\<close>. \<open>JFloat\<close> carries the rational value of a finite float. A
  character of a string stands for one code point of the Python string.
\<close>

datatype json =
    JNull
  | JBool bool
  | JInt int
  | JFloat rat
  | JStr string
  | JList "json list"
  | JObj "(string \<times> json) list"

text \<open>Python's truth value of an object, as \<^verbatim>\<open>if x\<close> and \<^verbatim>\<open>not x\<close> test it.\<close>

fun truthy :: "json \<Rightarrow> bool" where
  "truthy JNull = False"
| "truthy (JBool b) = b"
| "truthy (JInt n) = (n \<noteq> 0)"
| "truthy (JFloat q) = (q \<noteq> 0)"
| "truthy (JStr s) = (s \<noteq> [])"
| "truthy (JList xs) = (xs \<noteq> [])"
| "truthy (JObj kvs) = (kvs \<noteq> [])"

text \<open>
  Exceptions are values. Each carries the text \<^verbatim>\<open>str(e)\<close> gives; \<open>External\<close> is an
  exception raised by a collaborator outside the repository (the AI backend, the file
  system, the telemetry store, the queue transport).
\<close>

datatype error =
    TypeError string
  | KeyError string
  | IndexError string
  | AttributeError string
  | JSONDecodeError string
  | ValueError string
  | RecursionError string
  | External string

fun exc_str :: "error \<Rightarrow> string" where
  "exc_str (TypeError m) = m"
| "exc_str (KeyError m) = m"
| "exc_str (IndexError m) = m"
| "exc_str (AttributeError m) = m"
| "exc_str (JSONDecodeError m) = m"
| "exc_str (ValueError m) = m"
| "exc_str (RecursionError m) = m"
| "exc_str (External m) = m"

fun py_type_name :: "json \<Rightarrow> string" where
  "py_type_name JNull = ''NoneType''"
| "py_type_name (JBool b) = ''bool''"
| "py_type_name (JInt n) = ''int''"
| "py_type_name (JFloat q) = ''float''"
| "py_type_name (JStr s) = ''str''"
| "py_type_name (JList xs) = ''list''"
| "py_type_name (JObj kvs) = ''dict''"

definition quoted :: "string \<Rightarrow> string" where
  "quoted s = CHR 0x27 # s @ [CHR 0x27]"

text \<open>\<^verbatim>\<open>d.get(k, default)\<close> on a dictionary.\<close>

definition dict_get :: "(string \<times> json) list \<Rightarrow> string \<Rightarrow> json \<Rightarrow> json" where
  "dict_get d k dflt = (case map_of d k of Some v \<Rightarrow> v | None \<Rightarrow> dflt)"

text \<open>
  \<^verbatim>\<open>x.get(k, default)\<close> on an object of any type: only a dictionary has the method,
  every other object raises AttributeError.
\<close>

definition py_get :: "json \<Rightarrow> string \<Rightarrow> json \<Rightarrow> error + json" where
  "py_get x k dflt =
     (case x of
        JObj d \<Rightarrow> Inr (dict_get d k dflt)
      | _ \<Rightarrow> Inl (AttributeError
                 (quoted (py_type_name x) @ '' object has no attribute '' @ quoted ''get'')))"

text \<open>\<^verbatim>\<open>x[0]\<close> on an object of any type.\<close>

fun subscript0 :: "json \<Rightarrow> error + json" where
  "subscript0 (JList (x # xs)) = Inr x"
| "subscript0 (JList []) = Inl (IndexError ''list index out of range'')"
| "subscript0 (JStr (c # cs)) = Inr (JStr [c])"
| "subscript0 (JStr []) = Inl (IndexError ''string index out of range'')"
| "subscript0 (JObj kvs) = Inl (KeyError ''0'')"
| "subscript0 v = Inl (TypeError (quoted (py_type_name v) @ '' object is not subscriptable''))"

text \<open>\<^verbatim>\<open>len(x)\<close> on an object of any type.\<close>

fun py_len :: "json \<Rightarrow> error + nat" where
  "py_len (JList xs) = Inr (length xs)"
| "py_len (JStr s) = Inr (length s)"
| "py_len (JObj kvs) = Inr (length kvs)"
| "py_len v = Inl (TypeError (''object of type '' @ quoted (py_type_name v) @ '' has no len()''))"

text \<open>
  An f-string field \<^verbatim>\<open>{x}\<close>: a string is inserted as it is; the text of any other
  object is what \<^verbatim>\<open>str\<close> gives, here the parameter \<open>render\<close>.
\<close>

definition py_str :: "(json \<Rightarrow> string) \<Rightarrow> json \<Rightarrow> string" where
  "py_str render v = (case v of JStr s \<Rightarrow> s | _ \<Rightarrow> render v)"

datatype level = DEBUG | INFO | WARNING | ERROR

type_synonym log = "(level \<times> string) list"

section \<open>Dataclasses (agents/utility/util\_classes.py)\<close>

text \<open>
  Python does not enforce the annotations of a dataclass, and \<^verbatim>\<open>from_dict\<close> stores
  whatever the dictionary holds, so a field holds any value. \<open>usage\<close> and
  \<open>next_action\<close> are \<^verbatim>\<open>None\<close> or an instance of their dataclass.
\<close>

record token_usage =
  prompt_tokens :: json
  completion_tokens :: json
  total_tokens :: json

record next_action =
  target_queue :: json
  payload :: json

record agent_response =
  status :: json
  responses :: json
  thread_id :: json
  reason :: json
  usage :: "token_usage option"
  tool_calls :: json
  inference_rounds :: json
  agent_type :: json
  model_name :: json
  next_action :: "next_action option"

text \<open>\<^verbatim>\<open>AgentResponse(status=..., responses=...)\<close> with every other field at its default.\<close>

definition AgentResponse :: "json \<Rightarrow> json \<Rightarrow> agent_response" where
  "AgentResponse st rs =
     \<lparr>status = st, responses = rs, thread_id = JNull, reason = JNull, usage = None,
      tool_calls = JInt 0, inference_rounds = JInt 0, agent_type = JNull,
      model_name = JNull, next_action = None\<rparr>"

text \<open>
  \<^verbatim>\<open>dataclasses.asdict\<close>: the fields in declaration order, nested dataclasses converted
  in the same way, \<^verbatim>\<open>None\<close> kept.
\<close>

definition asdict_token_usage :: "token_usage \<Rightarrow> json" where
  "asdict_token_usage u =
     JObj [(''prompt_tokens'', prompt_tokens u),
           (''completion_tokens'', completion_tokens u),
           (''total_tokens'', total_tokens u)]"

definition asdict_next_action :: "next_action \<Rightarrow> json" where
  "asdict_next_action a = JObj [(''target_queue'', target_queue a), (''payload'', payload a)]"

definition asdict :: "agent_response \<Rightarrow> (string \<times> json) list" where
  "asdict r =
     [(''status'', status r),
      (''responses'', responses r),
      (''thread_id'', thread_id r),
      (''reason'', reason r),
      (''usage'', case usage r of None \<Rightarrow> JNull | Some u \<Rightarrow> asdict_token_usage u),
      (''tool_calls'', tool_calls r),
      (''inference_rounds'', inference_rounds r),
      (''agent_type'', agent_type r),
      (''model_name'', model_name r),
      (''next_action'', case next_action r of None \<Rightarrow> JNull | Some a \<Rightarrow> asdict_next_action a)]"

text \<open>
  \<^verbatim>\<open>TokenUsage(**x)\<close> and \<^verbatim>\<open>NextAction(**x)\<close>: the call succeeds when \<open>x\<close> is a
  dictionary whose keys are exactly the fields of the dataclass (none has a default);
  otherwise Python raises TypeError, here \<open>None\<close>.
\<close>

definition TokenUsage_kwargs :: "json \<Rightarrow> token_usage option" where
  "TokenUsage_kwargs x =
     (case x of
        JObj kvs \<Rightarrow>
          if set (map fst kvs) = set [''prompt_tokens'', ''completion_tokens'', ''total_tokens'']
          then Some \<lparr>prompt_tokens = dict_get kvs ''prompt_tokens'' JNull,
                     completion_tokens = dict_get kvs ''completion_tokens'' JNull,
                     total_tokens = dict_get kvs ''total_tokens'' JNull\<rparr>
          else None
      | _ \<Rightarrow> None)"

definition NextAction_kwargs :: "json \<Rightarrow> next_action option" where
  "NextAction_kwargs x =
     (case x of
        JObj kvs \<Rightarrow>
          if set (map fst kvs) = set [''target_queue'', ''payload'']
          then Some \<lparr>target_queue = dict_get kvs ''target_queue'' JNull,
                     payload = dict_get kvs ''payload'' JNull\<rparr>
          else None
      | _ \<Rightarrow> None)"

text \<open>
  \<^verbatim>\<open>AgentResponse.from_dict\<close>. The result is \<open>None\<close> when one of the two nested
  constructor calls raises TypeError.
\<close>

definition from_dict :: "(string \<times> json) list \<Rightarrow> agent_response option" where
  "from_dict data =
     (case (if truthy (dict_get data ''usage'' JNull)
            then map_option Some (TokenUsage_kwargs (dict_get data ''usage'' JNull))
            else Some None) of
        None \<Rightarrow> None
      | Some u \<Rightarrow>
          (case (if truthy (dict_get data ''next_action'' JNull)
                 then map_option Some (NextAction_kwargs (dict_get data ''next_action'' JNull))
                 else Some None) of
             None \<Rightarrow> None
           | Some a \<Rightarrow>
               Some \<lparr>status = dict_get data ''status'' (JStr ''error''),
                     responses = dict_get data ''responses'' (JList []),
                     thread_id = dict_get data ''thread_id'' JNull,
                     reason = dict_get data ''reason'' JNull,
                     usage = u,
                     tool_calls = dict_get data ''tool_calls'' (JInt 0),
                     inference_rounds = dict_get data ''inference_rounds'' (JInt 0),
                     agent_type = dict_get data ''agent_type'' JNull,
                     model_name = dict_get data ''model_name'' JNull,
                     next_action = a\<rparr>))"

section \<open>Routing-decision extraction (agents/app/activity\_workflow.py)\<close>

text \<open>
  \<^verbatim>\<open>_determine_next_action\<close>. \<open>loads\<close> is \<^verbatim>\<open>json.loads\<close>: the object parsed, or
  the exception raised: JSONDecodeError on text that is not JSON, and also ValueError (an
  integer literal beyond the digit limit of the conversion) or RecursionError (deep
  nesting). The \<^verbatim>\<open>except json.JSONDecodeError\<close> catches the first only; any other
  exception leaves the function. The result is the log written and either the exception
  raised or the value returned.
\<close>

definition determine_next_action ::
  "(string \<Rightarrow> error + json) \<Rightarrow> (json \<Rightarrow> string) \<Rightarrow> json \<Rightarrow> agent_response
     \<Rightarrow> log \<times> (error + next_action option)" where
  "determine_next_action loads render agent_type_arg response =
     (case (if truthy (responses response) then subscript0 (responses response)
            else Inr (JObj [])) of
        Inl e \<Rightarrow> ([], Inl e)
      | Inr first_response0 \<Rightarrow>
          let first_response1 =
                (case first_response0 of
                   JObj d \<Rightarrow> (case map_of d ''raw'' of Some w \<Rightarrow> w | None \<Rightarrow> first_response0)
                 | _ \<Rightarrow> first_response0);
              parsed =
                (case first_response1 of
                   JStr s \<Rightarrow> loads s
                 | _ \<Rightarrow> Inr first_response1)
          in (case parsed of
                Inl (JSONDecodeError m) \<Rightarrow>
                  ([(WARNING, ''Agent '' @ py_str render agent_type_arg
                               @ '' returned non-JSON response'')], Inr None)
              | Inl e \<Rightarrow> ([], Inl e)
              | Inr first_response \<Rightarrow>
                  let agent_next_action =
                        (case first_response of
                           JObj d \<Rightarrow> dict_get d ''next_action'' JNull
                         | _ \<Rightarrow> JNull)
                  in (case agent_next_action of
                        JObj na \<Rightarrow>
                          if \<not> truthy agent_next_action then ([], Inr None)
                          else
                            let tq = dict_get na ''target_queue'' JNull in
                            if \<not> truthy tq \<or> tq = JStr ''none'' then ([], Inr None)
                            else
                              ([(INFO, ''Agent '' @ py_str render agent_type_arg
                                        @ '' routing to: '' @ py_str render tq)],
                               Inr (Some \<lparr>target_queue = tq,
                                           payload = dict_get na ''payload'' (JObj [])\<rparr>))
                      | _ \<Rightarrow> ([], Inr None))))"







section \<open>Workflow Step Executor (agents/app/activity\_workflow.py)\<close>

text \<open>
  The arguments of one call of \<^verbatim>\<open>track_token_usage\<close>. The values taken from a
  response hold any object; the operation and the description, which the activity never
  passes, are strings or \<^verbatim>\<open>None\<close> as annotated; times are clock readings.
\<close>

record usage_event =
  ev_model_name :: json
  ev_input_tokens :: json
  ev_output_tokens :: json
  ev_agent_type :: json
  ev_started_at :: nat
  ev_agent_operation :: "string option"
  ev_inference_rounds :: json
  ev_description :: "string option"
  ev_completed_at :: "nat option"

subsection \<open>Event log (shared/util\_cosmos.py)\<close>

text \<open>
  The stores behind the telemetry:
  \<^item> \<open>store_now\<close>, \<open>cosmos_now\<close>, \<open>isoformat\<close>: the clock as \<^verbatim>\<open>track_token_usage\<close> and
    as \<^verbatim>\<open>log_event\<close> read it, and the text of a time;
  \<^item> \<open>add_other\<close>: \<^verbatim>\<open>x + y\<close> when an operand is not an integer or a boolean: the sum
    Python computes (of floats, rounded), or the exception;
  \<^item> \<open>database_import\<close>: the exception the import of the database modules raises, if any;
  \<^item> \<open>SessionLocal\<close>: \<open>None\<close> when the database is not configured; otherwise the write
    of one row (open a session, add, commit, close), giving the id of the row or the
    exception raised, after which the session is rolled back and closed;
  \<^item> \<open>get_database\<close>: what \<^verbatim>\<open>_get_database\<close> logs and gives: the database, as the
    write of one document into a container (\<open>None\<close> when it returns, the exception
    otherwise), \<^verbatim>\<open>None\<close> when Cosmos is not configured or cannot be initialised, or
    the exception raised (the import of \<^verbatim>\<open>log_event\<close> included);
  \<^item> \<open>new_uuid\<close>: the text of \<^verbatim>\<open>uuid.uuid4()\<close>.
\<close>

record telemetry_store =
  store_now :: nat
  cosmos_now :: nat
  isoformat :: "nat \<Rightarrow> string"
  add_other :: "json \<Rightarrow> json \<Rightarrow> error + json"
  database_import :: "error option"
  SessionLocal :: "(usage_event \<Rightarrow> error + json) option"
  get_database ::
    "log \<times> (error + (string \<Rightarrow> (string \<times> json) list \<Rightarrow> error option) option)"
  new_uuid :: string

text \<open>\<^verbatim>\<open>d[k] = v\<close>: a key keeps its place, a new key goes to the end.\<close>

fun dict_set :: "(string \<times> json) list \<Rightarrow> string \<Rightarrow> json \<Rightarrow> (string \<times> json) list" where
  "dict_set [] k v = [(k, v)]"
| "dict_set ((k', v') # d) k v =
     (if k' = k then (k, v) # d else (k', v') # dict_set d k v)"

text \<open>\<^verbatim>\<open>x or y\<close>.\<close>

definition py_or :: "json \<Rightarrow> json \<Rightarrow> json" where
  "py_or x y = (if truthy x then x else y)"

text \<open>
  \<^verbatim>\<open>log_event\<close>: without a database it returns a failure and logs nothing; an
  exception of the write is logged as a warning and returned as a failure.
\<close>

definition log_event ::
  "telemetry_store \<Rightarrow> string \<Rightarrow> (string \<times> json) list \<Rightarrow> string option \<Rightarrow> log \<times> (error + json)" where
  "log_event st container_name event partition_key =
     (case get_database st of
        (l, Inl e) \<Rightarrow> (l, Inl e)
      | (l, Inr None) \<Rightarrow>
          (l, Inr (JObj [(''success'', JBool False),
                         (''error'', JStr ''Cosmos DB not configured'')]))
      | (l, Inr (Some upsert_item)) \<Rightarrow>
          let ident = py_or (dict_get event ''id'' JNull) (JStr (new_uuid st));
              event1 = dict_set event ''id'' ident;
              event2 = dict_set event1 ''timestamp''
                         (py_or (dict_get event1 ''timestamp'' JNull)
                                (JStr (isoformat st (cosmos_now st))));
              event3 = dict_set event2 ''_partition_key''
                         (case partition_key of
                            Some k \<Rightarrow> if k \<noteq> [] then JStr k
                                      else dict_get event2 ''event_type'' (JStr ''default'')
                          | None \<Rightarrow> dict_get event2 ''event_type'' (JStr ''default''))
          in (case upsert_item container_name event3 of
                None \<Rightarrow> (l, Inr (JObj [(''success'', JBool True), (''id'', ident)]))
              | Some e \<Rightarrow>
                  (l @ [(WARNING, ''Failed to log event to Cosmos DB: '' @ exc_str e)],
                   Inr (JObj [(''success'', JBool False), (''error'', JStr (exc_str e))]))))"

subsection \<open>Token tracking (shared/util\_token\_tracking.py)\<close>

text \<open>\<^verbatim>\<open>x < 0\<close> on an object of any type.\<close>

fun negative :: "json \<Rightarrow> error + bool" where
  "negative (JInt n) = Inr (n < 0)"
| "negative (JFloat q) = Inr (q < 0)"
| "negative (JBool b) = Inr False"
| "negative v =
     Inl (TypeError (quoted ''<'' @ '' not supported between instances of ''
                     @ quoted (py_type_name v) @ '' and '' @ quoted ''int''))"

text \<open>
  \<^verbatim>\<open>x + y\<close>: exact on integers (a boolean counts as 0 or 1); every other sum is the
  parameter \<open>other\<close>.
\<close>

fun int_value :: "json \<Rightarrow> int option" where
  "int_value (JInt n) = Some n"
| "int_value (JBool b) = Some (if b then 1 else 0)"
| "int_value v = None"

definition py_add :: "(json \<Rightarrow> json \<Rightarrow> error + json) \<Rightarrow> json \<Rightarrow> json \<Rightarrow> error + json" where
  "py_add other x y =
     (case (int_value x, int_value y) of
        (Some a, Some b) \<Rightarrow> Inr (JInt (a + b))
      | _ \<Rightarrow> other x y)"

definition json_of_text :: "string option \<Rightarrow> json" where
  "json_of_text t = (case t of None \<Rightarrow> JNull | Some s \<Rightarrow> JStr s)"

text \<open>
  \<^verbatim>\<open>_fallback_to_cosmos\<close>: everything stands in one \<^verbatim>\<open>try\<close>, whose handler returns a
  failure dictionary and logs nothing.
\<close>

definition fallback_to_cosmos ::
  "telemetry_store \<Rightarrow> (json \<Rightarrow> string) \<Rightarrow> usage_event \<Rightarrow> json \<Rightarrow> log \<times> (error + json)" where
  "fallback_to_cosmos st rnd ev sql_error =
     (let event =
            [(''event_type'', JStr ''token_usage''),
             (''agent_type'', ev_agent_type ev),
             (''agent_operation'', json_of_text (ev_agent_operation ev)),
             (''model_name'', ev_model_name ev),
             (''input_tokens'', ev_input_tokens ev),
             (''output_tokens'', ev_output_tokens ev),
             (''inference_rounds'', ev_inference_rounds ev),
             (''description'', json_of_text (ev_description ev)),
             (''started_at'', JStr (isoformat st (ev_started_at ev))),
             (''completed_at'', case ev_completed_at ev of
                                  None \<Rightarrow> JNull | Some t \<Rightarrow> JStr (isoformat st t)),
             (''sql_error'', sql_error)];
          failed = (\<lambda>e. Inr (JObj [(''success'', JBool False),
                                    (''error'', JStr (''Cosmos fallback failed: '' @ exc_str e))]))
      in case log_event st ''token-usage'' event None of
           (l, Inl e) \<Rightarrow> (l, failed e)
         | (l, Inr result) \<Rightarrow>
             (case py_get result ''success'' JNull of
                Inl e \<Rightarrow> (l, failed e)
              | Inr ok \<Rightarrow>
                  if truthy ok then
                    (case py_get result ''id'' JNull of
                       Inl e \<Rightarrow> (l, failed e)
                     | Inr ident \<Rightarrow>
                         (l, Inr (JObj [(''success'', JBool True), (''id'', ident),
                                        (''store'', JStr ''cosmos'')])))
                  else
                    (case py_get result ''error'' JNull of
                       Inl e \<Rightarrow> (l, failed e)
                     | Inr why \<Rightarrow>
                         (l, Inr (JObj [(''success'', JBool False),
                                        (''error'', JStr (''Cosmos fallback failed: ''
                                                          @ py_str rnd why))])))))"

text \<open>
  The body of the outer \<^verbatim>\<open>try\<close> of \<^verbatim>\<open>track_token_usage\<close>: the log, the arguments as
  the local variables hold them when the block ends (the completion time and the
  description are reassigned on the way), and the value returned or the exception.
\<close>

definition track_try ::
  "telemetry_store \<Rightarrow> (json \<Rightarrow> string) \<Rightarrow> usage_event \<Rightarrow> log \<times> usage_event \<times> (error + json)" where
  "track_try st rnd ev =
     (if \<not> truthy (ev_model_name ev) \<or> \<not> truthy (ev_agent_type ev) then
        ([], ev, Inr (JObj [(''success'', JBool False),
                            (''error'', JStr ''model_name and agent_type are required'')]))
      else
        (case (case negative (ev_input_tokens ev) of
                 Inl e \<Rightarrow> Inl e
               | Inr True \<Rightarrow> Inr True
               | Inr False \<Rightarrow> negative (ev_output_tokens ev)) of
           Inl e \<Rightarrow> ([], ev, Inl e)
         | Inr True \<Rightarrow>
             ([], ev, Inr (JObj [(''success'', JBool False),
                                 (''error'', JStr ''Token counts cannot be negative'')]))
         | Inr False \<Rightarrow>
             let ev1 = ev\<lparr>ev_completed_at :=
                            (case ev_completed_at ev of
                               None \<Rightarrow> Some (store_now st) | Some t \<Rightarrow> Some t)\<rparr>;
                 ev2 = ev1\<lparr>ev_description :=
                             (case ev_description ev1 of
                                None \<Rightarrow> None
                              | Some d \<Rightarrow> if d \<noteq> [] \<and> length d > 500
                                          then Some (take 497 d @ ''...'') else Some d)\<rparr>
             in (case database_import st of
                   Some e \<Rightarrow> ([], ev2, Inl e)
                 | None \<Rightarrow>
                     (case SessionLocal st of
                        None \<Rightarrow>
                          (case fallback_to_cosmos st rnd ev2 JNull of
                             (l, res) \<Rightarrow> (l, ev2, res))
                      | Some write \<Rightarrow>
                          (case write (ev2\<lparr>ev_inference_rounds :=
                                              py_or (ev_inference_rounds ev2) (JInt 0)\<rparr>) of
                             Inl e \<Rightarrow> ([], ev2, Inl e)
                           | Inr record_id \<Rightarrow>
                               (case py_add (add_other st) (ev_input_tokens ev2)
                                       (ev_output_tokens ev2) of
                                  Inl e \<Rightarrow> ([], ev2, Inl e)
                                | Inr tokens \<Rightarrow>
                                    ([(DEBUG, ''Token usage tracked: agent=''
                                              @ py_str rnd (ev_agent_type ev2)
                                              @ '', model='' @ py_str rnd (ev_model_name ev2)
                                              @ '', tokens='' @ rnd tokens
                                              @ '', id='' @ py_str rnd record_id)],
                                     ev2,
                                     Inr (JObj [(''success'', JBool True),
                                                (''id'', record_id)]))))))))"

text \<open>
  \<^verbatim>\<open>track_token_usage\<close>: the handler of the outer \<^verbatim>\<open>try\<close> logs the exception as a
  warning and returns what the fallback returns. A failure that the block returns as a
  dictionary (arguments refused, no store configured) passes without a log line.
\<close>

definition track_token_usage ::
  "telemetry_store \<Rightarrow> (json \<Rightarrow> string) \<Rightarrow> usage_event \<Rightarrow> log \<times> (error + json)" where
  "track_token_usage st rnd ev =
     (case track_try st rnd ev of
        (l, ev', Inr d) \<Rightarrow> (l, Inr d)
      | (l, ev', Inl e) \<Rightarrow>
          (case fallback_to_cosmos st rnd ev' (JStr (exc_str e)) of
             (fl, Inr d) \<Rightarrow>
               (l @ [(WARNING, ''Failed to track token usage: '' @ exc_str e)] @ fl, Inr d)
           | (fl, Inl fallback_error) \<Rightarrow>
               (l @ [(WARNING, ''Failed to track token usage: '' @ exc_str e)] @ fl
                  @ [(WARNING, ''Cosmos fallback also failed: '' @ exc_str fallback_error)],
                Inr (JObj [(''success'', JBool False),
                           (''error'', JStr (''Failed to track token usage: '' @ exc_str e))]))))"

subsection \<open>The activity\<close>

text \<open>
  The collaborators of the activity:
  \<^item> \<open>loads\<close>, \<open>dumps\<close>: \<^verbatim>\<open>json.loads\<close> and \<^verbatim>\<open>json.dumps\<close> (which does not fail on
    the objects of type \<^typ>\<open>json\<close>);
  \<^item> \<open>render\<close>: \<^verbatim>\<open>str\<close> on an object that is not a string;
  \<^item> \<open>prompt_file\<close>: the instructions directory, by file name: \<open>None\<close> when the file
    does not exist, otherwise its text or the exception reading it raises;
  \<^item> \<open>get_backend\<close>: the configured backend's \<^verbatim>\<open>execute\<close>, or the exception building
    the backend raises; \<^verbatim>\<open>execute\<close> returns a response, \<^verbatim>\<open>None\<close>, or raises;
  \<^item> \<open>telemetry\<close>: the stores behind \<^verbatim>\<open>track_token_usage\<close>;
  \<^item> \<open>utcnow\<close>: the clock read at the start of the activity.
\<close>

record env =
  loads :: "string \<Rightarrow> error + json"
  dumps :: "json \<Rightarrow> string"
  render :: "json \<Rightarrow> string"
  prompt_file :: "string \<Rightarrow> (error + string) option"
  get_backend :: "error + (string \<Rightarrow> json list \<Rightarrow> json list \<Rightarrow> error + agent_response option)"
  telemetry :: telemetry_store
  utcnow :: nat

text \<open>What one run of the activity did: the log, the telemetry calls, the outcome.\<close>

record wf_result =
  wf_log :: log
  wf_tracked :: "usage_event list"
  wf_return :: "error + json"

text \<open>\<^verbatim>\<open>_load_system_prompt\<close>.\<close>

definition load_system_prompt ::
  "(string \<Rightarrow> (error + string) option) \<Rightarrow> (json \<Rightarrow> string) \<Rightarrow> json \<Rightarrow> log \<times> (error + string)" where
  "load_system_prompt files rnd agent_type_arg =
     (case files (py_str rnd agent_type_arg @ ''.system.md'') of
        Some content \<Rightarrow> ([], content)
      | None \<Rightarrow>
          ([(WARNING, ''No system prompt found for agent: '' @ py_str rnd agent_type_arg)],
           Inr (''You are a '' @ py_str rnd agent_type_arg
                @ '' agent. Process the input and return a JSON response.'')))"

text \<open>
  The keyword arguments \<^verbatim>\<open>_track_usage\<close> passes: the model name (\<^verbatim>\<open>unknown\<close> when
  the response has none), the prompt and completion token counts, the agent type, the
  start time and the number of inference rounds.
\<close>

definition usage_event_of :: "agent_response \<Rightarrow> token_usage \<Rightarrow> json \<Rightarrow> nat \<Rightarrow> usage_event" where
  "usage_event_of response u agent_type_arg started_at =
     \<lparr>ev_model_name = (if truthy (model_name response) then model_name response
                        else JStr ''unknown''),
      ev_input_tokens = prompt_tokens u,
      ev_output_tokens = completion_tokens u,
      ev_agent_type = agent_type_arg,
      ev_started_at = started_at,
      ev_agent_operation = None,
      ev_inference_rounds = inference_rounds response,
      ev_description = None,
      ev_completed_at = None\<rparr>"

text \<open>
  \<^verbatim>\<open>_track_usage\<close>: \<^verbatim>\<open>track_token_usage\<close> is called only when the response carries
  usage; an exception of the call is caught and logged. A dataclass instance is always
  true, so \<^verbatim>\<open>if response.usage\<close> tests for \<^verbatim>\<open>None\<close>. The result is the log and the
  calls made.
\<close>

definition track_usage ::
  "telemetry_store \<Rightarrow> (json \<Rightarrow> string) \<Rightarrow> agent_response \<Rightarrow> json \<Rightarrow> nat
     \<Rightarrow> log \<times> usage_event list" where
  "track_usage st rnd response agent_type_arg started_at =
     (case usage response of
        None \<Rightarrow> ([], [])
      | Some u \<Rightarrow>
          let event = usage_event_of response u agent_type_arg started_at
          in (case track_token_usage st rnd event of
                (l, Inr _) \<Rightarrow> (l, [event])
              | (l, Inl e) \<Rightarrow>
                  (l @ [(WARNING, ''Failed to track token usage: '' @ exc_str e)], [event])))"

text \<open>
  \<^verbatim>\<open>messages = [{"role": "user", "content": json.dumps(input_data.payload)}]\<close>.
\<close>

definition user_messages :: "(json \<Rightarrow> string) \<Rightarrow> json \<Rightarrow> json list" where
  "user_messages serialise payload_arg =
     [JObj [(''role'', JStr ''user''), (''content'', JStr (serialise payload_arg))]]"

text \<open>The body of the \<^verbatim>\<open>try\<close> block of \<^verbatim>\<open>run_agent_workflow\<close>.\<close>

definition workflow_try :: "env \<Rightarrow> json \<Rightarrow> json \<Rightarrow> nat \<Rightarrow> wf_result" where
  "workflow_try ev agent_type_arg payload_arg started_at =
     (case load_system_prompt (prompt_file ev) (render ev) agent_type_arg of
        (l1, Inl e) \<Rightarrow> \<lparr>wf_log = l1, wf_tracked = [], wf_return = Inl e\<rparr>
      | (l1, Inr system_prompt) \<Rightarrow>
          (case get_backend ev of
             Inl e \<Rightarrow> \<lparr>wf_log = l1, wf_tracked = [], wf_return = Inl e\<rparr>
           | Inr execute \<Rightarrow>
               (case execute system_prompt (user_messages (dumps ev) payload_arg) [] of
                  Inl e \<Rightarrow> \<lparr>wf_log = l1, wf_tracked = [], wf_return = Inl e\<rparr>
                | Inr None \<Rightarrow>
                    \<lparr>wf_log = l1 @ [(ERROR, ''No response from agent: ''
                                              @ py_str (render ev) agent_type_arg)],
                     wf_tracked = [],
                     wf_return = Inr (JObj (asdict
                        ((AgentResponse (JStr ''error'') (JList []))
                           \<lparr>reason := JStr (''No response from agent: ''
                                            @ py_str (render ev) agent_type_arg),
                            agent_type := agent_type_arg\<rparr>)))\<rparr>
                | Inr (Some agent_response0) \<Rightarrow>
                    (case determine_next_action (loads ev) (render ev) agent_type_arg
                            (agent_response0\<lparr>agent_type := agent_type_arg\<rparr>) of
                       (l2, Inl e) \<Rightarrow> \<lparr>wf_log = l1 @ l2, wf_tracked = [], wf_return = Inl e\<rparr>
                     | (l2, Inr na) \<Rightarrow>
                         let agent_response1 =
                               agent_response0\<lparr>agent_type := agent_type_arg, next_action := na\<rparr>;
                             tracked = track_usage (telemetry ev) (render ev) agent_response1
                                         agent_type_arg started_at
                         in (case py_len (responses agent_response1) of
                               Inl e \<Rightarrow>
                                 \<lparr>wf_log = l1 @ l2 @ fst tracked, wf_tracked = snd tracked,
                                  wf_return = Inl e\<rparr>
                             | Inr n \<Rightarrow>
                                 \<lparr>wf_log = l1 @ l2 @ fst tracked
                                    @ [(INFO, ''Agent workflow completed: ''
                                          @ py_str (render ev) agent_type_arg
                                          @ '' | status='' @ py_str (render ev) (status agent_response1)
                                          @ '' | responses='' @ render ev (JInt (int n))
                                          @ '' | next=''
                                          @ (case na of
                                               Some a \<Rightarrow> py_str (render ev) (target_queue a)
                                             | None \<Rightarrow> ''none''))],
                                  wf_tracked = snd tracked,
                                  wf_return = Inr (JObj (asdict agent_response1))\<rparr>)))))"

text \<open>
  \<^verbatim>\<open>run_agent_workflow\<close>: the two reads of \<^verbatim>\<open>workflowInput\<close> stand before the
  \<^verbatim>\<open>try\<close>; the handler turns every exception of the block into an error response.
\<close>

definition run_agent_workflow :: "env \<Rightarrow> json \<Rightarrow> wf_result" where
  "run_agent_workflow ev workflowInput =
     (case py_get workflowInput ''agent_type'' JNull of
        Inl e \<Rightarrow> \<lparr>wf_log = [], wf_tracked = [], wf_return = Inl e\<rparr>
      | Inr agent_type_arg \<Rightarrow>
          (case py_get workflowInput ''payload'' (JObj []) of
             Inl e \<Rightarrow> \<lparr>wf_log = [], wf_tracked = [], wf_return = Inl e\<rparr>
           | Inr payload_arg \<Rightarrow>
               let log0 = [(INFO, ''Running agent workflow: '' @ py_str (render ev) agent_type_arg)];
                   body = workflow_try ev agent_type_arg payload_arg (utcnow ev)
               in (case wf_return body of
                     Inr d \<Rightarrow> body\<lparr>wf_log := log0 @ wf_log body\<rparr>
                   | Inl e \<Rightarrow>
                       \<lparr>wf_log = log0 @ wf_log body
                          @ [(ERROR, ''Agent workflow failed: '' @ py_str (render ev) agent_type_arg)],
                        wf_tracked = wf_tracked body,
                        wf_return = Inr (JObj (asdict
                           ((AgentResponse (JStr ''error'') (JList []))
                              \<lparr>reason := JStr (exc_str e), agent_type := agent_type_arg\<rparr>)))\<rparr>)))"

section \<open>Task Dispatcher (agents/app/activity\_queue.py)\<close>

definition max_retries :: nat where
  "max_retries = 3"

definition retry_delays :: "int list" where
  "retry_delays = [2, 5, 10]"

text \<open>
  What one run of \<^verbatim>\<open>queue_message\<close> did: the outcome, the attempts that entered the
  \<^verbatim>\<open>try\<close> block, the arguments of \<^verbatim>\<open>time.sleep\<close> in order, the log.
\<close>

record queue_result =
  q_return :: "error + json"
  q_sends :: "nat list"
  q_sleeps :: "int list"
  q_log :: log

text \<open>
  The loop \<^verbatim>\<open>for attempt in range(max_retries)\<close>, on the attempts still to run.
  \<open>send attempt queue_name payload\<close> is the \<^verbatim>\<open>try\<close> block of that attempt (connect, open
  the sender, serialise, send): \<open>None\<close> when it delivers, the exception otherwise. A loop
  that ends without \<^verbatim>\<open>return\<close> makes the function return \<^verbatim>\<open>None\<close>.
\<close>

fun send_loop ::
  "(nat \<Rightarrow> json \<Rightarrow> json \<Rightarrow> error option) \<Rightarrow> (json \<Rightarrow> string) \<Rightarrow> json \<Rightarrow> json \<Rightarrow> nat list
     \<Rightarrow> queue_result" where
  "send_loop send rnd queue_name payload_arg [] =
     \<lparr>q_return = Inr JNull, q_sends = [], q_sleeps = [], q_log = []\<rparr>"
| "send_loop send rnd queue_name payload_arg (attempt # rest) =
     (case send attempt queue_name payload_arg of
        None \<Rightarrow>
          \<lparr>q_return = Inr (JObj [(''status'', JStr ''success''), (''queue'', queue_name),
                                 (''attempts'', JInt (int attempt + 1))]),
           q_sends = [attempt], q_sleeps = [],
           q_log = [(INFO, ''Queued message to '' @ quoted (py_str rnd queue_name)
                           @ '' (attempt '' @ rnd (JInt (int attempt + 1)) @ '')'')]\<rparr>
      | Some e \<Rightarrow>
          if attempt = max_retries - 1 then
            \<lparr>q_return = Inr (JObj [(''status'', JStr ''error''), (''reason'', JStr (exc_str e)),
                                   (''attempts'', JInt (int max_retries))]),
             q_sends = [attempt], q_sleeps = [],
             q_log = [(ERROR, ''Failed to queue message to '' @ quoted (py_str rnd queue_name)
                              @ '' after '' @ rnd (JInt (int max_retries)) @ '' attempts: ''
                              @ exc_str e)]\<rparr>
          else if attempt < length retry_delays then
            (let delay = retry_delays ! attempt;
                 later = send_loop send rnd queue_name payload_arg rest
             in later\<lparr>q_sends := attempt # q_sends later,
                       q_sleeps := delay # q_sleeps later,
                       q_log := (WARNING, ''Queue attempt '' @ rnd (JInt (int attempt + 1))
                                          @ '' failed, retrying in '' @ rnd (JInt delay)
                                          @ ''s: '' @ exc_str e) # q_log later\<rparr>)
          else
            \<lparr>q_return = Inl (IndexError ''list index out of range''),
             q_sends = [attempt], q_sleeps = [], q_log = []\<rparr>)"

text \<open>
  \<^verbatim>\<open>queue_message\<close>. \<open>conn\<close> is \<^verbatim>\<open>SERVICE_BUS_CONNECTION_STRING\<close>, the value of
  \<^verbatim>\<open>os.environ.get\<close>: a string, or \<open>None\<close> when the variable is not set.
\<close>

definition queue_message ::
  "string option \<Rightarrow> (nat \<Rightarrow> json \<Rightarrow> json \<Rightarrow> error option) \<Rightarrow> (json \<Rightarrow> string) \<Rightarrow> json
     \<Rightarrow> queue_result" where
  "queue_message conn send rnd queueInput =
     (case py_get queueInput ''queue'' JNull of
        Inl e \<Rightarrow> \<lparr>q_return = Inl e, q_sends = [], q_sleeps = [], q_log = []\<rparr>
      | Inr queue_name \<Rightarrow>
          (case py_get queueInput ''payload'' (JObj []) of
             Inl e \<Rightarrow> \<lparr>q_return = Inl e, q_sends = [], q_sleeps = [], q_log = []\<rparr>
           | Inr payload_arg \<Rightarrow>
               if \<not> truthy queue_name then
                 \<lparr>q_return = Inr (JObj [(''status'', JStr ''error''),
                                        (''reason'', JStr ''No queue name provided'')]),
                  q_sends = [], q_sleeps = [], q_log = []\<rparr>
               else if conn = None \<or> conn = Some [] then
                 \<lparr>q_return = Inr (JObj [(''status'', JStr ''error''),
                                        (''reason'', JStr ''Service Bus not configured'')]),
                  q_sends = [], q_sleeps = [],
                  q_log = [(ERROR, ''SERVICE_BUS_CONNECTION_STRING not configured'')]\<rparr>
               else send_loop send rnd queue_name payload_arg [0..<max_retries]))"

section \<open>Orchestrator (agents/orchestrators/orchestrator\_main.py)\<close>

text \<open>
  What one run of the generator \<^verbatim>\<open>main_orchestrator\<close> did: the activities it asked
  for with \<^verbatim>\<open>yield context.call_activity(name, input)\<close>, in order, the log, and how it
  ended: the value returned or the exception raised.
\<close>

record orch_result =
  o_calls :: "(string \<times> json) list"
  o_log :: log
  o_return :: "error + json"

text \<open>
  \<^verbatim>\<open>main_orchestrator\<close>. \<open>call name input\<close> is what the \<^verbatim>\<open>yield\<close> evaluates to: the
  result of the activity, or the exception raised at the \<^verbatim>\<open>yield\<close> when it failed.
\<close>

definition main_orchestrator ::
  "(string \<Rightarrow> json \<Rightarrow> error + json) \<Rightarrow> (json \<Rightarrow> string) \<Rightarrow> json \<Rightarrow> orch_result" where
  "main_orchestrator call rnd input_data =
     (case py_get input_data ''event_type'' (JStr ''unknown'') of
        Inl e \<Rightarrow> \<lparr>o_calls = [], o_log = [], o_return = Inl e\<rparr>
      | Inr event_type \<Rightarrow>
          let log0 = [(INFO, ''Main orchestrator started: event_type='' @ py_str rnd event_type)];
              c1 = (''run_agent_workflow'',
                    JObj [(''agent_type'', JStr ''triage''), (''payload'', input_data)]);
              completed = (\<lambda>triage_result.
                 JObj [(''status'', JStr ''completed''), (''event_type'', event_type),
                       (''triage_result'', triage_result)])
          in (case call (fst c1) (snd c1) of
                Inl e \<Rightarrow> \<lparr>o_calls = [c1], o_log = log0, o_return = Inl e\<rparr>
              | Inr triage_result \<Rightarrow>
                  (case py_get triage_result ''status'' JNull of
                     Inl e \<Rightarrow> \<lparr>o_calls = [c1], o_log = log0, o_return = Inl e\<rparr>
                   | Inr st \<Rightarrow>
                       if st = JStr ''error'' then
                         (case py_get triage_result ''reason'' JNull of
                            Inl e \<Rightarrow> \<lparr>o_calls = [c1], o_log = log0, o_return = Inl e\<rparr>
                          | Inr why \<Rightarrow>
                              \<lparr>o_calls = [c1],
                               o_log = log0 @ [(ERROR, ''Triage failed: '' @ py_str rnd why)],
                               o_return = Inr (JObj [(''status'', JStr ''error''),
                                                     (''reason'', why)])\<rparr>)
                       else
                         (case py_get triage_result ''next_action'' JNull of
                            Inl e \<Rightarrow> \<lparr>o_calls = [c1], o_log = log0, o_return = Inl e\<rparr>
                          | Inr na \<Rightarrow>
                              if \<not> truthy na then
                                \<lparr>o_calls = [c1], o_log = log0,
                                 o_return = Inr (completed triage_result)\<rparr>
                              else
                                (case py_get na ''target_queue'' JNull of
                                   Inl e \<Rightarrow> \<lparr>o_calls = [c1], o_log = log0, o_return = Inl e\<rparr>
                                 | Inr tq \<Rightarrow>
                                     (case py_get na ''payload'' (JObj []) of
                                        Inl e \<Rightarrow> \<lparr>o_calls = [c1], o_log = log0, o_return = Inl e\<rparr>
                                      | Inr pl \<Rightarrow>
                                          if truthy tq \<and> tq \<noteq> JStr ''none'' then
                                            (let c2 = (''queue_message'',
                                                       JObj [(''queue'', tq), (''payload'', pl)])
                                             in case call (fst c2) (snd c2) of
                                                  Inl e \<Rightarrow>
                                                    \<lparr>o_calls = [c1, c2], o_log = log0,
                                                     o_return = Inl e\<rparr>
                                                | Inr _ \<Rightarrow>
                                                    \<lparr>o_calls = [c1, c2],
                                                     o_log = log0 @ [(INFO, ''Routed to queue: ''
                                                                        @ py_str rnd tq)],
                                                     o_return = Inr (completed triage_result)\<rparr>)
                                          else
                                            \<lparr>o_calls = [c1], o_log = log0,
                                             o_return = Inr (completed triage_result)\<rparr>))))))"

text \<open>
  The states of an orchestration instance that the repository and its specification
  name (\<^verbatim>\<open>df.OrchestrationRuntimeStatus\<close>).
\<close>

datatype runtime_status = Pending | Running | Completed | Failed

text \<open>
  The repository holds no code that writes the state of an instance: the record is kept
  by the durable runtime that drives the generator, and \<^verbatim>\<open>main_orchestrator\<close> only
  returns or raises. The runtime records a run whose orchestrator function returned as
  Completed, with the returned value as output, and a run whose orchestrator function
  raised as Failed.
\<close>

definition final_runtime_status :: "error + json \<Rightarrow> runtime_status" where
  "final_runtime_status ended = (case ended of Inr output \<Rightarrow> Completed | Inl e \<Rightarrow> Failed)"

section \<open>Queue consumers (agents/agents.py)\<close>

subsection \<open>Instance keys\<close>

text \<open>
  \<^verbatim>\<open>instance_id = f"orchestrate-{event_type}-{event_id}"\<close> in
  \<^verbatim>\<open>orchestrator_queue_consumer\<close> and \<^verbatim>\<open>instance_id = f"task-{agent_type}-{task_id}"\<close>
  in \<^verbatim>\<open>task_queue_consumer\<close>, on the texts the two fields format to.
\<close>

definition orchestrate_instance_id :: "string \<Rightarrow> string \<Rightarrow> string" where
  "orchestrate_instance_id event_type_text event_id_text =
     ''orchestrate-'' @ event_type_text @ ''-'' @ event_id_text"

definition task_instance_id :: "string \<Rightarrow> string \<Rightarrow> string" where
  "task_instance_id agent_type_text task_id_text =
     ''task-'' @ agent_type_text @ ''-'' @ task_id_text"

text \<open>
  What one run of a consumer did: the calls \<^verbatim>\<open>client.start_new(name, instance_id,
  client_input)\<close> it made, the log, and whether it returned or raised.
\<close>

record consumer_result =
  c_started :: "(string \<times> string \<times> json) list"
  c_log :: log
  c_return :: "error + unit"

text \<open>
  The part both consumers share after the instance id is built: the status check and
  the start. \<open>get_status\<close> is \<^verbatim>\<open>client.get_status\<close>: the state of the instance, \<open>None\<close>
  when there is none, or an exception; \<open>start_new\<close> is \<^verbatim>\<open>client.start_new\<close>: \<open>None\<close>
  when it returns, the exception otherwise.
\<close>

definition check_and_start ::
  "(string \<Rightarrow> error + runtime_status option) \<Rightarrow> (string \<Rightarrow> string \<Rightarrow> json \<Rightarrow> error option)
     \<Rightarrow> string \<Rightarrow> json \<Rightarrow> string \<Rightarrow> string \<Rightarrow> consumer_result" where
  "check_and_start get_status start_new instance_id body already_text started_text =
     (case get_status instance_id of
        Inl e \<Rightarrow> \<lparr>c_started = [], c_log = [], c_return = Inl e\<rparr>
      | Inr st \<Rightarrow>
          if st = Some Running \<or> st = Some Pending then
            \<lparr>c_started = [],
             c_log = [(WARNING, already_text @ instance_id @ '' already running'')],
             c_return = Inr ()\<rparr>
          else
            (case start_new ''main_orchestrator'' instance_id body of
               Some e \<Rightarrow>
                 \<lparr>c_started = [(''main_orchestrator'', instance_id, body)],
                  c_log = [], c_return = Inl e\<rparr>
             | None \<Rightarrow>
                 \<lparr>c_started = [(''main_orchestrator'', instance_id, body)],
                  c_log = [(INFO, started_text @ instance_id)],
                  c_return = Inr ()\<rparr>))"

text \<open>
  The \<^verbatim>\<open>except Exception\<close> of both consumers: log the exception and raise it again.
\<close>

definition log_and_reraise :: "string \<Rightarrow> consumer_result \<Rightarrow> consumer_result" where
  "log_and_reraise failed_text r =
     (case c_return r of
        Inl e \<Rightarrow> r\<lparr>c_log := c_log r @ [(ERROR, failed_text @ exc_str e)]\<rparr>
      | Inr _ \<Rightarrow> r)"

text \<open>
  \<^verbatim>\<open>orchestrator_queue_consumer\<close>, on the decoded text of the message body; \<open>parse\<close>
  is \<^verbatim>\<open>json.loads\<close>.
\<close>

definition orchestrator_queue_consumer ::
  "(string \<Rightarrow> error + json) \<Rightarrow> (json \<Rightarrow> string)
     \<Rightarrow> (string \<Rightarrow> error + runtime_status option) \<Rightarrow> (string \<Rightarrow> string \<Rightarrow> json \<Rightarrow> error option)
     \<Rightarrow> string \<Rightarrow> consumer_result" where
  "orchestrator_queue_consumer parse rnd get_status start_new msg =
     log_and_reraise ''Failed to process orchestrator queue message: ''
       (case parse msg of
          Inl e \<Rightarrow> \<lparr>c_started = [], c_log = [], c_return = Inl e\<rparr>
        | Inr body \<Rightarrow>
            (case py_get body ''event_type'' (JStr ''unknown'') of
               Inl e \<Rightarrow> \<lparr>c_started = [], c_log = [], c_return = Inl e\<rparr>
             | Inr event_type \<Rightarrow>
                 (case py_get body ''event_id'' (JStr ''unknown'') of
                    Inl e \<Rightarrow> \<lparr>c_started = [], c_log = [], c_return = Inl e\<rparr>
                  | Inr event_id \<Rightarrow>
                      let log1 = (INFO, ''Orchestrator queue: event_type='' @ py_str rnd event_type
                                        @ '', event_id='' @ py_str rnd event_id);
                          instance_id = orchestrate_instance_id (py_str rnd event_type)
                                          (py_str rnd event_id);
                          r = check_and_start get_status start_new instance_id body
                                ''Orchestration '' ''Started orchestration: ''
                      in r\<lparr>c_log := log1 # c_log r\<rparr>)))"

text \<open>\<^verbatim>\<open>task_queue_consumer\<close>: \<^verbatim>\<open>agent_type\<close> has no default.\<close>

definition task_queue_consumer ::
  "(string \<Rightarrow> error + json) \<Rightarrow> (json \<Rightarrow> string)
     \<Rightarrow> (string \<Rightarrow> error + runtime_status option) \<Rightarrow> (string \<Rightarrow> string \<Rightarrow> json \<Rightarrow> error option)
     \<Rightarrow> string \<Rightarrow> consumer_result" where
  "task_queue_consumer parse rnd get_status start_new msg =
     log_and_reraise ''Failed to process task queue message: ''
       (case parse msg of
          Inl e \<Rightarrow> \<lparr>c_started = [], c_log = [], c_return = Inl e\<rparr>
        | Inr body \<Rightarrow>
            (case py_get body ''agent_type'' JNull of
               Inl e \<Rightarrow> \<lparr>c_started = [], c_log = [], c_return = Inl e\<rparr>
             | Inr agent_type_arg \<Rightarrow>
                 (case py_get body ''task_id'' (JStr ''unknown'') of
                    Inl e \<Rightarrow> \<lparr>c_started = [], c_log = [], c_return = Inl e\<rparr>
                  | Inr task_id \<Rightarrow>
                      let log1 = (INFO, ''Task queue: agent='' @ py_str rnd agent_type_arg
                                        @ '', task_id='' @ py_str rnd task_id);
                          instance_id = task_instance_id (py_str rnd agent_type_arg)
                                          (py_str rnd task_id);
                          r = check_and_start get_status start_new instance_id body
                                ''Task orchestration '' ''Started task orchestration: ''
                      in r\<lparr>c_log := log1 # c_log r\<rparr>)))"

section \<open>Example collaborators and inputs\<close>

text \<open>
  Concrete collaborators for the runs evaluated below. \<open>example_render\<close> is exact on
  \<^verbatim>\<open>None\<close> and the booleans and a placeholder on other objects. \<open>example_loads\<close> knows
  three documents; on a text of more than 4300 decimal digits it raises the ValueError of
  Python's integer conversion (the head of its message); it rejects every other text.
\<close>

definition example_render :: "json \<Rightarrow> string" where
  "example_render v =
     (case v of
        JNull \<Rightarrow> ''None''
      | JBool b \<Rightarrow> (if b then ''True'' else ''False'')
      | JStr s \<Rightarrow> s
      | _ \<Rightarrow> ''<'' @ py_type_name v @ ''>'')"

definition example_loads :: "string \<Rightarrow> error + json" where
  "example_loads s =
     (if s = ''{\"next_action\": {\"target_queue\": \"agent-tasks\", \"payload\": {\"x\": 1}}}''
      then Inr (JObj [(''next_action'',
                       JObj [(''target_queue'', JStr ''agent-tasks''),
                             (''payload'', JObj [(''x'', JInt 1)])])])
      else if s = ''{\"next_action\": {\"target_queue\": \"none\"}}''
      then Inr (JObj [(''next_action'', JObj [(''target_queue'', JStr ''none'')])])
      else if s = ''{}'' then Inr (JObj [])
      else if list_all (\<lambda>c. c \<in> set ''0123456789'') s \<and> 4300 < length s
      then Inl (ValueError ''Exceeds the limit (4300 digits) for integer string conversion'')
      else Inl (JSONDecodeError ''Expecting value: line 1 column 1 (char 0)''))"

definition example_response :: agent_response where
  "example_response =
     (AgentResponse (JStr ''success'') (JList [JStr ''{}'']))
       \<lparr>usage := Some \<lparr>prompt_tokens = JInt 12, completion_tokens = JInt 30,
                        total_tokens = JInt 42\<rparr>,
        inference_rounds := JInt 1,
        agent_type := JStr ''triage'',
        model_name := JStr ''gpt-4o'',
        next_action := Some \<lparr>target_queue = JStr ''agent-results'',
                              payload = JObj [(''summary'', JStr ''ok'')]\<rparr>\<rparr>"

text \<open>
  Two transports: one that fails twice and then delivers, one that never delivers.
\<close>

definition flaky_send :: "nat \<Rightarrow> json \<Rightarrow> json \<Rightarrow> error option" where
  "flaky_send attempt queue_name payload_arg =
     (if attempt < 2 then Some (External ''connection reset'') else None)"

definition dead_send :: "nat \<Rightarrow> json \<Rightarrow> json \<Rightarrow> error option" where
  "dead_send attempt queue_name payload_arg = Some (External ''connection refused'')"

definition example_queue_input :: "(string \<times> json) list" where
  "example_queue_input =
     [(''queue'', JStr ''agent-results''), (''payload'', JObj [(''summary'', JStr ''ok'')])]"

text \<open>
  An event, the text of its queue message, and a parser that knows this one message.
\<close>

definition example_event :: json where
  "example_event = JObj [(''event_type'', JStr ''order''), (''event_id'', JStr ''42'')]"

definition example_task :: json where
  "example_task = JObj [(''agent_type'', JStr ''billing''), (''task_id'', JStr ''7'')]"

definition example_parse :: "string \<Rightarrow> error + json" where
  "example_parse s =
     (if s = ''{\"event_type\": \"order\", \"event_id\": \"42\"}'' then Inr example_event
      else if s = ''{\"agent_type\": \"billing\", \"task_id\": \"7\"}'' then Inr example_task
      else Inl (JSONDecodeError ''Expecting value: line 1 column 1 (char 0)''))"

text \<open>
  A registry in which every instance is running, and a client whose \<^verbatim>\<open>start_new\<close>
  returns.
\<close>

definition all_running :: "string \<Rightarrow> error + runtime_status option" where
  "all_running instance_id = Inr (Some Running)"

definition accepting_start :: "string \<Rightarrow> string \<Rightarrow> json \<Rightarrow> error option" where
  "accepting_start name instance_id client_input = None"

text \<open>
  Backends: one that returns no result, one whose \<^verbatim>\<open>execute\<close> raises (as
  \<^verbatim>\<open>AzureAIAgentsBackend\<close> does), one that returns the error response
  \<^verbatim>\<open>AzureOpenAIBackend\<close> builds when the service call fails, one that answers with
  usage, and one whose answer, with usage, is an integer of 4301 digits.
\<close>

definition silent_backend :: "string \<Rightarrow> json list \<Rightarrow> json list \<Rightarrow> error + agent_response option" where
  "silent_backend system_prompt messages tools = Inr None"

definition raising_backend :: "string \<Rightarrow> json list \<Rightarrow> json list \<Rightarrow> error + agent_response option" where
  "raising_backend system_prompt messages tools =
     Inl (External ''Azure AI Agents backend not yet implemented'')"




text \<open>
  A backend that breaks the annotation of \<open>responses\<close>: it answers with
  \<^verbatim>\<open>responses=None\<close>.
\<close>

definition untyped_backend :: "string \<Rightarrow> json list \<Rightarrow> json list \<Rightarrow> error + agent_response option" where
  "untyped_backend system_prompt messages tools =
     Inr (Some (AgentResponse (JStr ''success'') JNull))"

text \<open>
  Telemetry stores: one whose database refuses every write while the event log accepts
  the fallback, and one with neither database nor event log configured.
\<close>

definition example_add :: "json \<Rightarrow> json \<Rightarrow> error + json" where
  "example_add x y =
     Inl (TypeError (''unsupported operand type(s) for +: '' @ quoted (py_type_name x)
                     @ '' and '' @ quoted (py_type_name y)))"

definition example_isoformat :: "nat \<Rightarrow> string" where
  "example_isoformat t = ''2026-01-01T00:00:00''"

definition refusing_write :: "usage_event \<Rightarrow> error + json" where
  "refusing_write row = Inl (External ''database is down'')"

definition accepting_upsert :: "string \<Rightarrow> (string \<times> json) list \<Rightarrow> error option" where
  "accepting_upsert container_name document = None"

definition failing_sql_store :: telemetry_store where
  "failing_sql_store =
     \<lparr>store_now = 1, cosmos_now = 2, isoformat = example_isoformat, add_other = example_add,
      database_import = None, SessionLocal = Some refusing_write,
      get_database = ([], Inr (Some accepting_upsert)),
      new_uuid = ''6f1c2d3e-0000-4000-8000-000000000001''\<rparr>"


definition example_dumps :: "json \<Rightarrow> string" where
  "example_dumps v = ''{}''"

definition no_prompt_files :: "string \<Rightarrow> (error + string) option" where
  "no_prompt_files name = None"

definition example_env ::
  "(string \<Rightarrow> json list \<Rightarrow> json list \<Rightarrow> error + agent_response option) \<Rightarrow> env" where
  "example_env execute =
     \<lparr>loads = example_loads, dumps = example_dumps, render = example_render,
      prompt_file = no_prompt_files, get_backend = Inr execute,
      telemetry = failing_sql_store, utcnow = 0\<rparr>"


definition triage_input :: "(string \<times> json) list" where
  "triage_input = [(''agent_type'', JStr ''triage''), (''payload'', example_event)]"

text \<open>
  The activities as the orchestrator sees them when the triage step finds no response
  from its agent.
\<close>

definition triage_error_call :: "string \<Rightarrow> json \<Rightarrow> error + json" where
  "triage_error_call name activity_input =
     wf_return (run_agent_workflow (example_env silent_backend) activity_input)"

section \<open>Properties\<close>

subsection \<open>Instance keys\<close>

lemma hyphen_split_unique:
  assumes "CHR ''-'' \<notin> set a" and "CHR ''-'' \<notin> set b"
    and "a @ CHR ''-'' # x = b @ CHR ''-'' # y"
  shows "a = b \<and> x = y"
proof -
  have "takeWhile (\<lambda>c. c \<noteq> CHR ''-'') (a @ CHR ''-'' # x) = a"
    using assms(1) by (subst takeWhile_append2) auto
  moreover have "takeWhile (\<lambda>c. c \<noteq> CHR ''-'') (b @ CHR ''-'' # y) = b"
    using assms(2) by (subst takeWhile_append2) auto
  ultimately have "a = b" using assms(3) by simp
  with assms(3) show ?thesis by simp
qed

subsection \<open>Dataclasses\<close>

lemma from_dict_status:
  "from_dict data = Some r' \<Longrightarrow> status r' = dict_get data ''status'' (JStr ''error'')"
  unfolding from_dict_def by (auto split: option.splits)

subsection \<open>Routing-decision extraction\<close>






subsection \<open>Workflow Step Executor\<close>

lemma run_agent_workflow_dict:
  "run_agent_workflow ev (JObj wi) =
     (let a = dict_get wi ''agent_type'' JNull;
          body = workflow_try ev a (dict_get wi ''payload'' (JObj [])) (utcnow ev);
          log0 = [(INFO, ''Running agent workflow: '' @ py_str (render ev) a)]
      in case wf_return body of
           Inr d \<Rightarrow> body\<lparr>wf_log := log0 @ wf_log body\<rparr>
         | Inl e \<Rightarrow>
             \<lparr>wf_log = log0 @ wf_log body
                @ [(ERROR, ''Agent workflow failed: '' @ py_str (render ev) a)],
              wf_tracked = wf_tracked body,
              wf_return = Inr (JObj (asdict
                 ((AgentResponse (JStr ''error'') (JList []))
                    \<lparr>reason := JStr (exc_str e), agent_type := a\<rparr>)))\<rparr>)"
  by (simp add: run_agent_workflow_def py_get_def Let_def)

lemma workflow_try_returns_dict:
  "wf_return (workflow_try ev a p t) = Inr v \<Longrightarrow> \<exists>d. v = JObj d"
  by (auto simp add: workflow_try_def Let_def split: prod.splits sum.splits option.splits)

lemma workflow_try_no_response:
  "load_system_prompt (prompt_file ev) (render ev) a = (l, Inr sp) \<Longrightarrow>
   get_backend ev = Inr execute \<Longrightarrow>
   execute sp (user_messages (dumps ev) p) [] = Inr None \<Longrightarrow>
   wf_return (workflow_try ev a p t) =
     Inr (JObj (asdict ((AgentResponse (JStr ''error'') (JList []))
                          \<lparr>reason := JStr (''No response from agent: '' @ py_str (render ev) a),
                           agent_type := a\<rparr>)))
   \<and> wf_tracked (workflow_try ev a p t) = []"
  by (simp add: workflow_try_def)

lemma run_agent_workflow_return:
  "wf_return (run_agent_workflow ev (JObj wi)) =
     (case wf_return (workflow_try ev (dict_get wi ''agent_type'' JNull)
                        (dict_get wi ''payload'' (JObj [])) (utcnow ev)) of
        Inr d \<Rightarrow> Inr d
      | Inl e \<Rightarrow> Inr (JObj (asdict
                 ((AgentResponse (JStr ''error'') (JList []))
                    \<lparr>reason := JStr (exc_str e),
                     agent_type := dict_get wi ''agent_type'' JNull\<rparr>))))"
  by (simp add: run_agent_workflow_dict Let_def split: sum.splits)




lemma fallback_to_cosmos_returns:
  "\<exists>l d. fallback_to_cosmos st rnd ev sql_error = (l, Inr (JObj d))"
  by (cases "log_event st ''token-usage''
        [(''event_type'', JStr ''token_usage''),
         (''agent_type'', ev_agent_type ev),
         (''agent_operation'', json_of_text (ev_agent_operation ev)),
         (''model_name'', ev_model_name ev),
         (''input_tokens'', ev_input_tokens ev),
         (''output_tokens'', ev_output_tokens ev),
         (''inference_rounds'', ev_inference_rounds ev),
         (''description'', json_of_text (ev_description ev)),
         (''started_at'', JStr (isoformat st (ev_started_at ev))),
         (''completed_at'', case ev_completed_at ev of
                              None \<Rightarrow> JNull | Some t \<Rightarrow> JStr (isoformat st t)),
         (''sql_error'', sql_error)] None")
    (simp add: fallback_to_cosmos_def Let_def split: sum.splits)


lemma fallback_to_cosmos_never_raises:
  "fallback_to_cosmos st rnd ev sql_error \<noteq> (l, Inl e)"
  using fallback_to_cosmos_returns [of st rnd ev sql_error] by auto






lemma track_usage_none:
  "usage r = None \<Longrightarrow> track_usage st rnd r a t = ([], [])"
  by (simp add: track_usage_def)





subsection \<open>Dispatcher loop\<close>

lemma upt_max_retries: "[0..<max_retries] = [0, 1, 2]"
  by (simp add: max_retries_def upt_rec)

lemma send_loop_first:
  "send 0 qn p = None \<Longrightarrow>
   q_return (send_loop send rnd qn p [0, 1, 2]) =
     Inr (JObj [(''status'', JStr ''success''), (''queue'', qn), (''attempts'', JInt 1)])
   \<and> q_sends (send_loop send rnd qn p [0, 1, 2]) = [0]
   \<and> q_sleeps (send_loop send rnd qn p [0, 1, 2]) = []"
  by simp

lemma send_loop_second:
  "send 0 qn p = Some e0 \<Longrightarrow> send (Suc 0) qn p = None \<Longrightarrow>
   q_return (send_loop send rnd qn p [0, 1, 2]) =
     Inr (JObj [(''status'', JStr ''success''), (''queue'', qn), (''attempts'', JInt 2)])
   \<and> q_sends (send_loop send rnd qn p [0, 1, 2]) = [0, 1]
   \<and> q_sleeps (send_loop send rnd qn p [0, 1, 2]) = [2]"
  by (simp add: max_retries_def retry_delays_def)

lemma send_loop_third:
  "send 0 qn p = Some e0 \<Longrightarrow> send (Suc 0) qn p = Some e1 \<Longrightarrow> send 2 qn p = None \<Longrightarrow>
   q_return (send_loop send rnd qn p [0, 1, 2]) =
     Inr (JObj [(''status'', JStr ''success''), (''queue'', qn), (''attempts'', JInt 3)])
   \<and> q_sends (send_loop send rnd qn p [0, 1, 2]) = [0, 1, 2]
   \<and> q_sleeps (send_loop send rnd qn p [0, 1, 2]) = [2, 5]"
  by (simp add: max_retries_def retry_delays_def)

lemma send_loop_exhausted:
  "send 0 qn p = Some e0 \<Longrightarrow> send (Suc 0) qn p = Some e1 \<Longrightarrow> send 2 qn p = Some e2 \<Longrightarrow>
   q_return (send_loop send rnd qn p [0, 1, 2]) =
     Inr (JObj [(''status'', JStr ''error''), (''reason'', JStr (exc_str e2)),
                (''attempts'', JInt 3)])
   \<and> q_sends (send_loop send rnd qn p [0, 1, 2]) = [0, 1, 2]
   \<and> q_sleeps (send_loop send rnd qn p [0, 1, 2]) = [2, 5]"
  by (simp add: max_retries_def retry_delays_def)

lemma send_loop_at_most_three:
  "length (q_sends (send_loop send rnd qn p [0, 1, 2])) \<le> 3"
  by (simp add: max_retries_def retry_delays_def Let_def split: option.splits)

lemma queue_message_configured:
  "truthy (dict_get d ''queue'' JNull) \<Longrightarrow> conn \<noteq> None \<Longrightarrow> conn \<noteq> Some [] \<Longrightarrow>
   queue_message conn send rnd (JObj d) =
     send_loop send rnd (dict_get d ''queue'' JNull) (dict_get d ''payload'' (JObj [])) [0, 1, 2]"
  by (auto simp add: queue_message_def py_get_def upt_max_retries simp del: send_loop.simps)

subsection \<open>Queue consumers\<close>

lemma check_and_start_in_flight:
  "get_status k = Inr (Some st) \<Longrightarrow> st = Pending \<or> st = Running \<Longrightarrow>
   check_and_start get_status start_new k body already_text started_text =
     \<lparr>c_started = [], c_log = [(WARNING, already_text @ k @ '' already running'')],
      c_return = Inr ()\<rparr>"
  by (auto simp add: check_and_start_def)

section \<open>Claims\<close>




text \<open>
  C2, as amended. When the triage activity returns a dictionary with status \<open>error\<close>,
  the orchestrator returns \<open>{status: error, reason}\<close>, the triage activity is the only
  activity it calls, so \<^verbatim>\<open>queue_message\<close> is never invoked, and it ends by returning:
  the runtime records the run as Completed, with the error dictionary as output.
\<close>

theorem triage_error_short_circuit:
  assumes "call ''run_agent_workflow''
             (JObj [(''agent_type'', JStr ''triage''), (''payload'', JObj d)]) = Inr (JObj tr)"
    and "dict_get tr ''status'' JNull = JStr ''error''"
  shows "o_return (main_orchestrator call rnd (JObj d)) =
           Inr (JObj [(''status'', JStr ''error''), (''reason'', dict_get tr ''reason'' JNull)])
       \<and> o_calls (main_orchestrator call rnd (JObj d)) =
           [(''run_agent_workflow'',
             JObj [(''agent_type'', JStr ''triage''), (''payload'', JObj d)])]
       \<and> ''queue_message'' \<notin> fst ` set (o_calls (main_orchestrator call rnd (JObj d)))
       \<and> final_runtime_status (o_return (main_orchestrator call rnd (JObj d))) = Completed"
  using assms
  by (simp add: main_orchestrator_def py_get_def Let_def final_runtime_status_def)

text \<open>
  C2, as amended, on the event \<open>(order, 42)\<close> with a triage step whose agent gives
  no response.
\<close>

theorem triage_error_short_circuit_witness:
  "o_return (main_orchestrator triage_error_call example_render example_event) =
     Inr (JObj [(''status'', JStr ''error''),
                (''reason'', JStr ''No response from agent: triage'')])
   \<and> o_calls (main_orchestrator triage_error_call example_render example_event) =
     [(''run_agent_workflow'',
       JObj [(''agent_type'', JStr ''triage''), (''payload'', example_event)])]"
proof -
  have call: "triage_error_call ''run_agent_workflow''
      (JObj [(''agent_type'', JStr ''triage''),
             (''payload'', JObj [(''event_type'', JStr ''order''), (''event_id'', JStr ''42'')])]) =
      Inr (JObj (asdict ((AgentResponse (JStr ''error'') (JList []))
                           \<lparr>reason := JStr ''No response from agent: triage'',
                            agent_type := JStr ''triage''\<rparr>)))"
    by (simp add: triage_error_call_def run_agent_workflow_def workflow_try_def py_get_def
        example_env_def silent_backend_def load_system_prompt_def no_prompt_files_def
        py_str_def dict_get_def)
  have st: "dict_get (asdict ((AgentResponse (JStr ''error'') (JList []))
                           \<lparr>reason := JStr ''No response from agent: triage'',
                            agent_type := JStr ''triage''\<rparr>)) ''status'' JNull = JStr ''error''"
    by (simp add: asdict_def dict_get_def AgentResponse_def)
  show ?thesis
    using triage_error_short_circuit [where call=triage_error_call and rnd=example_render,
        OF call st]
    by (simp add: example_event_def asdict_def dict_get_def AgentResponse_def)
qed

text \<open>
  C2, as stated, fails on that run: the orchestrator returns the error dictionary, and
  a run whose orchestrator returns is recorded Completed, not Failed.
\<close>

theorem triage_error_not_failed:
  "o_return (main_orchestrator triage_error_call example_render example_event) =
     Inr (JObj [(''status'', JStr ''error''),
                (''reason'', JStr ''No response from agent: triage'')])
   \<and> final_runtime_status
        (o_return (main_orchestrator triage_error_call example_render example_event)) = Completed
   \<and> final_runtime_status
        (o_return (main_orchestrator triage_error_call example_render example_event)) \<noteq> Failed"
  by (simp add: main_orchestrator_def py_get_def Let_def final_runtime_status_def
      triage_error_call_def example_event_def run_agent_workflow_def workflow_try_def
      example_env_def silent_backend_def load_system_prompt_def no_prompt_files_def
      py_str_def dict_get_def asdict_def AgentResponse_def)

text \<open>
  C3. When the message parses to a dictionary and the instance its id names is Pending
  or Running, each consumer returns without raising, calls \<^verbatim>\<open>start_new\<close> not at all,
  and writes one warning after its first log line: the duplicate start is a no-op.
\<close>

theorem duplicate_start_is_noop:
  assumes "parse msg = Inr (JObj d)"
    and "st = Pending \<or> st = Running"
  shows
    "(let et = py_str rnd (dict_get d ''event_type'' (JStr ''unknown''));
          ei = py_str rnd (dict_get d ''event_id'' (JStr ''unknown''));
          k = orchestrate_instance_id et ei
      in get_status k = Inr (Some st) \<longrightarrow>
         orchestrator_queue_consumer parse rnd get_status start_new msg =
           \<lparr>c_started = [],
            c_log = [(INFO, ''Orchestrator queue: event_type='' @ et @ '', event_id='' @ ei),
                     (WARNING, ''Orchestration '' @ k @ '' already running'')],
            c_return = Inr ()\<rparr>)
   \<and> (let agent = py_str rnd (dict_get d ''agent_type'' JNull);
          task = py_str rnd (dict_get d ''task_id'' (JStr ''unknown''));
          k = task_instance_id agent task
      in get_status k = Inr (Some st) \<longrightarrow>
         task_queue_consumer parse rnd get_status start_new msg =
           \<lparr>c_started = [],
            c_log = [(INFO, ''Task queue: agent='' @ agent @ '', task_id='' @ task),
                     (WARNING, ''Task orchestration '' @ k @ '' already running'')],
            c_return = Inr ()\<rparr>)"
  using assms
  by (simp add: orchestrator_queue_consumer_def task_queue_consumer_def py_get_def Let_def
      check_and_start_in_flight log_and_reraise_def)

text \<open>
  C3 on the message of the event \<open>(order, 42)\<close> and of the task
  \<open>(billing, 7)\<close>, with every instance running.
\<close>

theorem duplicate_start_is_noop_witness:
  "orchestrator_queue_consumer example_parse example_render all_running accepting_start
     ''{\"event_type\": \"order\", \"event_id\": \"42\"}'' =
     \<lparr>c_started = [],
      c_log = [(INFO, ''Orchestrator queue: event_type=order, event_id=42''),
               (WARNING, ''Orchestration orchestrate-order-42 already running'')],
      c_return = Inr ()\<rparr>
   \<and> task_queue_consumer example_parse example_render all_running accepting_start
     ''{\"agent_type\": \"billing\", \"task_id\": \"7\"}'' =
     \<lparr>c_started = [],
      c_log = [(INFO, ''Task queue: agent=billing, task_id=7''),
               (WARNING, ''Task orchestration task-billing-7 already running'')],
      c_return = Inr ()\<rparr>"
proof -
  have p1: "example_parse ''{\"event_type\": \"order\", \"event_id\": \"42\"}'' =
      Inr (JObj [(''event_type'', JStr ''order''), (''event_id'', JStr ''42'')])"
    by (simp add: example_parse_def example_event_def)
  have p2: "example_parse ''{\"agent_type\": \"billing\", \"task_id\": \"7\"}'' =
      Inr (JObj [(''agent_type'', JStr ''billing''), (''task_id'', JStr ''7'')])"
    by (simp add: example_parse_def example_task_def)
  have st: "Running = Pending \<or> Running = Running"
    by simp
  show ?thesis
    using duplicate_start_is_noop [where parse=example_parse
        and msg="''{\"event_type\": \"order\", \"event_id\": \"42\"}''"
        and rnd=example_render and get_status=all_running and start_new=accepting_start,
        OF p1 st, THEN conjunct1]
      duplicate_start_is_noop [where parse=example_parse
        and msg="''{\"agent_type\": \"billing\", \"task_id\": \"7\"}''"
        and rnd=example_render and get_status=all_running and start_new=accepting_start,
        OF p2 st, THEN conjunct2]
    by (simp add: Let_def dict_get_def py_str_def all_running_def orchestrate_instance_id_def
        task_instance_id_def)
qed

text \<open>
  C4. The dispatcher on a dictionary input. A queue name that is missing or empty gives
  \<open>{status: error, reason}\<close> at once, and so does a connection string that is unset or
  empty: no attempt, no sleep. Otherwise there are at most three attempts: when attempt
  \<open>n \<le> 3\<close> is the first to deliver, the result is \<open>{status: success, queue, attempts: n}\<close>
  after attempts \<open>0, ..., n - 1\<close> and the first \<open>n - 1\<close> delays of \<open>2, 5, 10\<close>; when
  all three fail, the result is \<open>{status: error, reason, attempts: 3}\<close> with the text of
  the last exception, after the delays \<open>2, 5\<close> and with no fourth attempt.
\<close>

theorem queue_message_bounded_retry:
  assumes qn: "qn = dict_get d ''queue'' JNull"
    and p: "p = dict_get d ''payload'' (JObj [])"
    and r: "r = queue_message conn send rnd (JObj d)"
  shows
    "(\<not> truthy qn \<longrightarrow>
        r = \<lparr>q_return = Inr (JObj [(''status'', JStr ''error''),
                                   (''reason'', JStr ''No queue name provided'')]),
             q_sends = [], q_sleeps = [], q_log = []\<rparr>)
   \<and> (truthy qn \<and> (conn = None \<or> conn = Some []) \<longrightarrow>
        q_return r = Inr (JObj [(''status'', JStr ''error''),
                                (''reason'', JStr ''Service Bus not configured'')])
        \<and> q_sends r = [] \<and> q_sleeps r = [])
   \<and> (truthy qn \<and> conn \<noteq> None \<and> conn \<noteq> Some [] \<longrightarrow>
        (\<forall>n. 1 \<le> n \<and> n \<le> 3 \<and> (\<forall>i<n - 1. send i qn p \<noteq> None) \<and> send (n - 1) qn p = None \<longrightarrow>
             q_return r = Inr (JObj [(''status'', JStr ''success''), (''queue'', qn),
                                     (''attempts'', JInt (int n))])
             \<and> q_sends r = [0..<n] \<and> q_sleeps r = take (n - 1) [2, 5, 10])
        \<and> (\<forall>e. send 0 qn p \<noteq> None \<and> send 1 qn p \<noteq> None \<and> send 2 qn p = Some e \<longrightarrow>
             q_return r = Inr (JObj [(''status'', JStr ''error''), (''reason'', JStr (exc_str e)),
                                     (''attempts'', JInt 3)])
             \<and> q_sends r = [0, 1, 2] \<and> q_sleeps r = [2, 5])
        \<and> length (q_sends r) \<le> 3)"
proof (intro conjI impI allI)
  assume "\<not> truthy qn"
  then show "r = \<lparr>q_return = Inr (JObj [(''status'', JStr ''error''),
                                   (''reason'', JStr ''No queue name provided'')]),
             q_sends = [], q_sleeps = [], q_log = []\<rparr>"
    using qn r by (simp add: queue_message_def py_get_def)
next
  assume a: "truthy qn \<and> (conn = None \<or> conn = Some [])"
  then have "r = \<lparr>q_return = Inr (JObj [(''status'', JStr ''error''),
                                (''reason'', JStr ''Service Bus not configured'')]),
                  q_sends = [], q_sleeps = [],
                  q_log = [(ERROR, ''SERVICE_BUS_CONNECTION_STRING not configured'')]\<rparr>"
    using qn r by (auto simp add: queue_message_def py_get_def)
  then show "q_return r = Inr (JObj [(''status'', JStr ''error''),
                                (''reason'', JStr ''Service Bus not configured'')])"
    and "q_sends r = []" and "q_sleeps r = []" by simp_all
next
  fix n
  assume c: "truthy qn \<and> conn \<noteq> None \<and> conn \<noteq> Some []"
    and n: "1 \<le> n \<and> n \<le> 3 \<and> (\<forall>i<n - 1. send i qn p \<noteq> None) \<and> send (n - 1) qn p = None"
  have loop: "r = send_loop send rnd qn p [0, 1, 2]"
    using c qn p r queue_message_configured by simp
  from n consider "n = 1" | "n = 2" | "n = 3" by force
  then have "q_return r = Inr (JObj [(''status'', JStr ''success''), (''queue'', qn),
                                     (''attempts'', JInt (int n))])
             \<and> q_sends r = [0..<n] \<and> q_sleeps r = take (n - 1) [2, 5, 10]"
  proof cases
    case 1
    with n have "send 0 qn p = None" by simp
    then show ?thesis
      using send_loop_first [where send=send and qn=qn and p=p and rnd=rnd] 1 loop by simp
  next
    case 2
    with n obtain e0 where "send 0 qn p = Some e0" "send (Suc 0) qn p = None" by force
    then show ?thesis
      using send_loop_second [where send=send and qn=qn and p=p and rnd=rnd] 2 loop
      by (simp add: upt_rec)
  next
    case 3
    with n have "send 0 qn p \<noteq> None" "send (Suc 0) qn p \<noteq> None" "send 2 qn p = None"
      by simp_all
    then obtain e0 e1
      where "send 0 qn p = Some e0" "send (Suc 0) qn p = Some e1" "send 2 qn p = None"
      by blast
    then show ?thesis
      using send_loop_third [where send=send and qn=qn and p=p and rnd=rnd] 3 loop
      by (simp add: upt_rec)
  qed
  then show "q_return r = Inr (JObj [(''status'', JStr ''success''), (''queue'', qn),
                                     (''attempts'', JInt (int n))])"
    and "q_sends r = [0..<n]" and "q_sleeps r = take (n - 1) [2, 5, 10]" by simp_all
next
  fix e
  assume c: "truthy qn \<and> conn \<noteq> None \<and> conn \<noteq> Some []"
    and f: "send 0 qn p \<noteq> None \<and> send 1 qn p \<noteq> None \<and> send 2 qn p = Some e"
  have loop: "r = send_loop send rnd qn p [0, 1, 2]"
    using c qn p r queue_message_configured by simp
  from f obtain e0 e1
    where "send 0 qn p = Some e0" "send (Suc 0) qn p = Some e1" "send 2 qn p = Some e"
    by auto
  then have "q_return r = Inr (JObj [(''status'', JStr ''error''), (''reason'', JStr (exc_str e)),
                                     (''attempts'', JInt 3)])
             \<and> q_sends r = [0, 1, 2] \<and> q_sleeps r = [2, 5]"
    using send_loop_exhausted [where send=send and qn=qn and p=p and rnd=rnd] loop by simp
  then show "q_return r = Inr (JObj [(''status'', JStr ''error''), (''reason'', JStr (exc_str e)),
                                     (''attempts'', JInt 3)])"
    and "q_sends r = [0, 1, 2]" and "q_sleeps r = [2, 5]"
    by simp_all
next
  assume c: "truthy qn \<and> conn \<noteq> None \<and> conn \<noteq> Some []"
  have loop: "r = send_loop send rnd qn p [0, 1, 2]"
    using c qn p r queue_message_configured by simp
  show "length (q_sends r) \<le> 3"
    unfolding loop by (rule send_loop_at_most_three)
qed

text \<open>
  C4 on a transport that fails twice and then delivers, on one that never delivers, on
  an unset connection string and on an input without queue name.
\<close>

theorem queue_message_bounded_retry_witness:
  "q_return (queue_message (Some ''Endpoint=sb://bus'') flaky_send example_render
               (JObj example_queue_input)) =
     Inr (JObj [(''status'', JStr ''success''), (''queue'', JStr ''agent-results''),
                (''attempts'', JInt 3)])
   \<and> q_sleeps (queue_message (Some ''Endpoint=sb://bus'') flaky_send example_render
               (JObj example_queue_input)) = [2, 5]
   \<and> q_return (queue_message (Some ''Endpoint=sb://bus'') dead_send example_render
               (JObj example_queue_input)) =
     Inr (JObj [(''status'', JStr ''error''), (''reason'', JStr ''connection refused''),
                (''attempts'', JInt 3)])
   \<and> q_sends (queue_message (Some ''Endpoint=sb://bus'') dead_send example_render
               (JObj example_queue_input)) = [0, 1, 2]
   \<and> q_sends (queue_message None dead_send example_render (JObj example_queue_input)) = []
   \<and> q_sends (queue_message (Some ''Endpoint=sb://bus'') dead_send example_render
               (JObj [(''payload'', JObj [])])) = []"
proof -
  have qn: "dict_get example_queue_input ''queue'' JNull = JStr ''agent-results''"
    by (simp add: example_queue_input_def dict_get_def)
  note flaky = queue_message_bounded_retry
    [where d=example_queue_input and conn="Some ''Endpoint=sb://bus''" and send=flaky_send
       and rnd=example_render, OF refl refl refl]
  note dead = queue_message_bounded_retry
    [where d=example_queue_input and conn="Some ''Endpoint=sb://bus''" and send=dead_send
       and rnd=example_render, OF refl refl refl]
  note unset = queue_message_bounded_retry
    [where d=example_queue_input and conn=None and send=dead_send
       and rnd=example_render, OF refl refl refl]
  note unnamed = queue_message_bounded_retry
    [where d="[(''payload'', JObj [])]" and conn="Some ''Endpoint=sb://bus''" and send=dead_send
       and rnd=example_render, OF refl refl refl]
  have tr: "truthy (dict_get example_queue_input ''queue'' JNull)
      \<and> Some ''Endpoint=sb://bus'' \<noteq> None \<and> Some ''Endpoint=sb://bus'' \<noteq> Some []"
    using qn by simp
  have third: "1 \<le> (3::nat) \<and> (3::nat) \<le> 3
      \<and> (\<forall>i<3 - 1. flaky_send i (dict_get example_queue_input ''queue'' JNull)
                     (dict_get example_queue_input ''payload'' (JObj [])) \<noteq> None)
      \<and> flaky_send (3 - 1) (dict_get example_queue_input ''queue'' JNull)
                     (dict_get example_queue_input ''payload'' (JObj [])) = None"
    by (simp add: flaky_send_def)
  have a: "q_return (queue_message (Some ''Endpoint=sb://bus'') flaky_send example_render
               (JObj example_queue_input)) =
     Inr (JObj [(''status'', JStr ''success''), (''queue'', JStr ''agent-results''),
                (''attempts'', JInt 3)])
   \<and> q_sleeps (queue_message (Some ''Endpoint=sb://bus'') flaky_send example_render
               (JObj example_queue_input)) = [2, 5]"
    using flaky [THEN conjunct2, THEN conjunct2, THEN mp, OF tr, THEN conjunct1, THEN spec,
        of 3, THEN mp, OF third] qn
    by simp
  have last: "dead_send 0 (dict_get example_queue_input ''queue'' JNull)
                     (dict_get example_queue_input ''payload'' (JObj [])) \<noteq> None
      \<and> dead_send 1 (dict_get example_queue_input ''queue'' JNull)
                     (dict_get example_queue_input ''payload'' (JObj [])) \<noteq> None
      \<and> dead_send 2 (dict_get example_queue_input ''queue'' JNull)
                     (dict_get example_queue_input ''payload'' (JObj [])) =
            Some (External ''connection refused'')"
    by (simp add: dead_send_def)
  have b: "q_return (queue_message (Some ''Endpoint=sb://bus'') dead_send example_render
               (JObj example_queue_input)) =
     Inr (JObj [(''status'', JStr ''error''), (''reason'', JStr ''connection refused''),
                (''attempts'', JInt 3)])
   \<and> q_sends (queue_message (Some ''Endpoint=sb://bus'') dead_send example_render
               (JObj example_queue_input)) = [0, 1, 2]"
    using dead [THEN conjunct2, THEN conjunct2, THEN mp, OF tr, THEN conjunct2, THEN conjunct1,
        THEN spec, of "External ''connection refused''", THEN mp, OF last]
    by simp
  have c: "q_sends (queue_message None dead_send example_render (JObj example_queue_input)) = []"
    using unset qn by simp
  have d: "q_sends (queue_message (Some ''Endpoint=sb://bus'') dead_send example_render
               (JObj [(''payload'', JObj [])])) = []"
    using unnamed by (simp add: dict_get_def)
  from a b c d show ?thesis by blast
qed

text \<open>
  C5, as amended. The instance id is a function of the two texts, and on pairs whose
  first text holds no hyphen it is injective: two ids are equal exactly when both texts
  are. The same holds for the id of a task.
\<close>

theorem instance_id_injective_without_hyphen:
  assumes "CHR ''-'' \<notin> set t" and "CHR ''-'' \<notin> set t'"
  shows "(orchestrate_instance_id t i = orchestrate_instance_id t' i') = (t = t' \<and> i = i')
       \<and> (task_instance_id t i = task_instance_id t' i') = (t = t' \<and> i = i')"
  using assms hyphen_split_unique [of t t' i i']
  by (auto simp add: orchestrate_instance_id_def task_instance_id_def)

text \<open>
  C5, as amended, on the events \<open>(order, 4-2)\<close> and \<open>(invoice, 4-2)\<close> and on
  two tasks.
\<close>

theorem instance_id_injective_without_hyphen_witness:
  "CHR ''-'' \<notin> set ''order'' \<and> CHR ''-'' \<notin> set ''invoice''
   \<and> orchestrate_instance_id ''order'' ''4-2'' \<noteq> orchestrate_instance_id ''invoice'' ''4-2''
   \<and> orchestrate_instance_id ''order'' ''4-2'' = ''orchestrate-order-4-2''
   \<and> task_instance_id ''order'' ''4-2'' \<noteq> task_instance_id ''order'' ''42''"
  using instance_id_injective_without_hyphen [of "''order''" "''invoice''" "''4-2''" "''4-2''"]
    instance_id_injective_without_hyphen [of "''order''" "''order''" "''4-2''" "''42''"]
  by (simp add: orchestrate_instance_id_def)

text \<open>
  C5, as stated, fails: the event \<open>(order-created, 42)\<close> and the event
  \<open>(order, created-42)\<close> are distinct and get the same instance id.
\<close>

theorem instance_id_collision:
  "orchestrate_instance_id ''order-created'' ''42'' = orchestrate_instance_id ''order'' ''created-42''
   \<and> (''order-created'', ''42'') \<noteq> (''order'', ''created-42'')"
  by (simp add: orchestrate_instance_id_def)

text \<open>
  C6, as amended. On a dictionary input \<^verbatim>\<open>run_agent_workflow\<close> never raises: it
  returns a dictionary. When the backend returns no result, the dictionary is the error
  response with reason \<open>No response from agent: <agent_type>\<close> (capital N); when the
  \<^verbatim>\<open>try\<close> block raises \<open>e\<close>, as it does when building the backend or its
  \<^verbatim>\<open>execute\<close> raises \<open>e\<close>, it is the error response with reason \<open>str(e)\<close> and the
  agent type.
\<close>

theorem run_agent_workflow_never_raises:
  "(\<exists>d. wf_return (run_agent_workflow ev (JObj wi)) = Inr (JObj d))
   \<and> (\<forall>l sp execute.
        load_system_prompt (prompt_file ev) (render ev) (dict_get wi ''agent_type'' JNull)
          = (l, Inr sp)
        \<and> get_backend ev = Inr execute
        \<and> execute sp (user_messages (dumps ev) (dict_get wi ''payload'' (JObj []))) []
          = Inr None \<longrightarrow>
        wf_return (run_agent_workflow ev (JObj wi)) =
          Inr (JObj (asdict
            ((AgentResponse (JStr ''error'') (JList []))
               \<lparr>reason := JStr (''No response from agent: ''
                                @ py_str (render ev) (dict_get wi ''agent_type'' JNull)),
                agent_type := dict_get wi ''agent_type'' JNull\<rparr>))))
   \<and> (\<forall>e.
        wf_return (workflow_try ev (dict_get wi ''agent_type'' JNull)
                     (dict_get wi ''payload'' (JObj [])) (utcnow ev)) = Inl e \<longrightarrow>
        wf_return (run_agent_workflow ev (JObj wi)) =
          Inr (JObj (asdict
            ((AgentResponse (JStr ''error'') (JList []))
               \<lparr>reason := JStr (exc_str e),
                agent_type := dict_get wi ''agent_type'' JNull\<rparr>))))
   \<and> (\<forall>l sp execute e.
        load_system_prompt (prompt_file ev) (render ev) (dict_get wi ''agent_type'' JNull)
          = (l, Inr sp)
        \<and> (get_backend ev = Inl e
           \<or> get_backend ev = Inr execute
             \<and> execute sp (user_messages (dumps ev) (dict_get wi ''payload'' (JObj []))) []
                 = Inl e) \<longrightarrow>
        wf_return (run_agent_workflow ev (JObj wi)) =
          Inr (JObj (asdict
            ((AgentResponse (JStr ''error'') (JList []))
               \<lparr>reason := JStr (exc_str e),
                agent_type := dict_get wi ''agent_type'' JNull\<rparr>))))"
proof (intro conjI allI impI)
  show "\<exists>d. wf_return (run_agent_workflow ev (JObj wi)) = Inr (JObj d)"
  proof (cases "wf_return (workflow_try ev (dict_get wi ''agent_type'' JNull)
                     (dict_get wi ''payload'' (JObj [])) (utcnow ev))")
    case (Inl e)
    then show ?thesis by (simp add: run_agent_workflow_return)
  next
    case (Inr v)
    then obtain d where "v = JObj d" using workflow_try_returns_dict by blast
    with Inr show ?thesis by (simp add: run_agent_workflow_return)
  qed
next
  fix l sp execute
  assume "load_system_prompt (prompt_file ev) (render ev) (dict_get wi ''agent_type'' JNull)
          = (l, Inr sp)
        \<and> get_backend ev = Inr execute
        \<and> execute sp (user_messages (dumps ev) (dict_get wi ''payload'' (JObj []))) []
          = Inr None"
  then show "wf_return (run_agent_workflow ev (JObj wi)) =
          Inr (JObj (asdict
            ((AgentResponse (JStr ''error'') (JList []))
               \<lparr>reason := JStr (''No response from agent: ''
                                @ py_str (render ev) (dict_get wi ''agent_type'' JNull)),
                agent_type := dict_get wi ''agent_type'' JNull\<rparr>)))"
    using workflow_try_no_response [where ev=ev and execute=execute and sp=sp and l=l]
    by (simp add: run_agent_workflow_return)
next
  fix e
  assume "wf_return (workflow_try ev (dict_get wi ''agent_type'' JNull)
                     (dict_get wi ''payload'' (JObj [])) (utcnow ev)) = Inl e"
  then show "wf_return (run_agent_workflow ev (JObj wi)) =
          Inr (JObj (asdict
            ((AgentResponse (JStr ''error'') (JList []))
               \<lparr>reason := JStr (exc_str e),
                agent_type := dict_get wi ''agent_type'' JNull\<rparr>)))"
    by (simp add: run_agent_workflow_return)
next
  fix l sp execute e
  assume "load_system_prompt (prompt_file ev) (render ev) (dict_get wi ''agent_type'' JNull)
          = (l, Inr sp)
        \<and> (get_backend ev = Inl e
           \<or> get_backend ev = Inr execute
             \<and> execute sp (user_messages (dumps ev) (dict_get wi ''payload'' (JObj []))) []
                 = Inl e)"
  then have "wf_return (workflow_try ev (dict_get wi ''agent_type'' JNull)
                     (dict_get wi ''payload'' (JObj [])) (utcnow ev)) = Inl e"
    by (auto simp add: workflow_try_def)
  then show "wf_return (run_agent_workflow ev (JObj wi)) =
          Inr (JObj (asdict
            ((AgentResponse (JStr ''error'') (JList []))
               \<lparr>reason := JStr (exc_str e),
                agent_type := dict_get wi ''agent_type'' JNull\<rparr>)))"
    by (simp add: run_agent_workflow_return)
qed

text \<open>
  C6, as amended, on a backend that returns no result, on a backend that raises, and
  on a backend whose response has no length, so that the log line after the telemetry
  raises TypeError.
\<close>

theorem run_agent_workflow_never_raises_witness:
  "wf_return (run_agent_workflow (example_env silent_backend) (JObj triage_input)) =
     Inr (JObj (asdict ((AgentResponse (JStr ''error'') (JList []))
                          \<lparr>reason := JStr ''No response from agent: triage'',
                           agent_type := JStr ''triage''\<rparr>)))
   \<and> wf_return (run_agent_workflow (example_env raising_backend) (JObj triage_input)) =
     Inr (JObj (asdict ((AgentResponse (JStr ''error'') (JList []))
                          \<lparr>reason := JStr ''Azure AI Agents backend not yet implemented'',
                           agent_type := JStr ''triage''\<rparr>)))
   \<and> wf_return (run_agent_workflow (example_env untyped_backend) (JObj triage_input)) =
     Inr (JObj (asdict ((AgentResponse (JStr ''error'') (JList []))
                          \<lparr>reason := JStr (''object of type '' @ quoted ''NoneType''
                                           @ '' has no len()''),
                           agent_type := JStr ''triage''\<rparr>)))"
proof -
  have a: "dict_get triage_input ''agent_type'' JNull = JStr ''triage''"
    by (simp add: triage_input_def dict_get_def)
  have prompt: "load_system_prompt (prompt_file (example_env silent_backend))
        (render (example_env silent_backend)) (dict_get triage_input ''agent_type'' JNull) =
      ([(WARNING, ''No system prompt found for agent: triage'')],
       Inr ''You are a triage agent. Process the input and return a JSON response.'')"
    by (simp add: a load_system_prompt_def example_env_def no_prompt_files_def py_str_def)
  have silent: "load_system_prompt (prompt_file (example_env silent_backend))
        (render (example_env silent_backend)) (dict_get triage_input ''agent_type'' JNull) =
      ([(WARNING, ''No system prompt found for agent: triage'')],
       Inr ''You are a triage agent. Process the input and return a JSON response.'')
    \<and> get_backend (example_env silent_backend) = Inr silent_backend
    \<and> silent_backend ''You are a triage agent. Process the input and return a JSON response.''
         (user_messages (dumps (example_env silent_backend))
            (dict_get triage_input ''payload'' (JObj []))) [] = Inr None"
    using prompt by (simp add: example_env_def silent_backend_def)
  have raised: "load_system_prompt (prompt_file (example_env raising_backend))
        (render (example_env raising_backend)) (dict_get triage_input ''agent_type'' JNull) =
      ([(WARNING, ''No system prompt found for agent: triage'')],
       Inr ''You are a triage agent. Process the input and return a JSON response.'')
    \<and> (get_backend (example_env raising_backend) =
          Inl (External ''Azure AI Agents backend not yet implemented'')
       \<or> get_backend (example_env raising_backend) = Inr raising_backend
         \<and> raising_backend
             ''You are a triage agent. Process the input and return a JSON response.''
             (user_messages (dumps (example_env raising_backend))
                (dict_get triage_input ''payload'' (JObj []))) [] =
           Inl (External ''Azure AI Agents backend not yet implemented''))"
    by (simp add: a load_system_prompt_def example_env_def no_prompt_files_def py_str_def
        raising_backend_def)
  have one: "wf_return (run_agent_workflow (example_env silent_backend) (JObj triage_input)) =
     Inr (JObj (asdict ((AgentResponse (JStr ''error'') (JList []))
                          \<lparr>reason := JStr ''No response from agent: triage'',
                           agent_type := JStr ''triage''\<rparr>)))"
    using run_agent_workflow_never_raises [where ev="example_env silent_backend"
        and wi=triage_input, THEN conjunct2, THEN conjunct1, THEN spec, THEN spec, THEN spec,
        THEN mp, OF silent]
    by (simp add: a example_env_def py_str_def)
  have two: "wf_return (run_agent_workflow (example_env raising_backend) (JObj triage_input)) =
     Inr (JObj (asdict ((AgentResponse (JStr ''error'') (JList []))
                          \<lparr>reason := JStr ''Azure AI Agents backend not yet implemented'',
                           agent_type := JStr ''triage''\<rparr>)))"
    using run_agent_workflow_never_raises [where ev="example_env raising_backend"
        and wi=triage_input, THEN conjunct2, THEN conjunct2, THEN conjunct2,
        THEN spec, THEN spec, THEN spec, THEN spec, THEN mp, OF raised]
    by (simp add: a)
  have no_len: "wf_return (workflow_try (example_env untyped_backend)
        (dict_get triage_input ''agent_type'' JNull)
        (dict_get triage_input ''payload'' (JObj [])) (utcnow (example_env untyped_backend))) =
      Inl (TypeError (''object of type '' @ quoted ''NoneType'' @ '' has no len()''))"
    by (simp add: a workflow_try_def load_system_prompt_def example_env_def no_prompt_files_def
        untyped_backend_def determine_next_action_def track_usage_def AgentResponse_def
        dict_get_def)
  have three: "wf_return (run_agent_workflow (example_env untyped_backend) (JObj triage_input)) =
     Inr (JObj (asdict ((AgentResponse (JStr ''error'') (JList []))
                          \<lparr>reason := JStr (''object of type '' @ quoted ''NoneType''
                                           @ '' has no len()''),
                           agent_type := JStr ''triage''\<rparr>)))"
    using run_agent_workflow_never_raises [where ev="example_env untyped_backend"
        and wi=triage_input, THEN conjunct2, THEN conjunct2, THEN conjunct1,
        THEN spec, THEN mp, OF no_len]
    by (simp add: a)
  from one two three show ?thesis by blast
qed

text \<open>
  C6, as stated, fails on the backend that returns no result: the reason begins with a
  capital letter, so the response is not the one with reason
  \<open>no response from agent: triage\<close>.
\<close>

theorem no_response_reason_is_capitalised:
  "wf_return (run_agent_workflow (example_env silent_backend) (JObj triage_input)) =
     Inr (JObj (asdict ((AgentResponse (JStr ''error'') (JList []))
                          \<lparr>reason := JStr ''No response from agent: triage'',
                           agent_type := JStr ''triage''\<rparr>)))
   \<and> wf_return (run_agent_workflow (example_env silent_backend) (JObj triage_input)) \<noteq>
     Inr (JObj (asdict ((AgentResponse (JStr ''error'') (JList []))
                          \<lparr>reason := JStr ''no response from agent: triage'',
                           agent_type := JStr ''triage''\<rparr>)))"
  by (simp add: run_agent_workflow_def workflow_try_def py_get_def
      example_env_def silent_backend_def load_system_prompt_def no_prompt_files_def
      py_str_def dict_get_def asdict_def AgentResponse_def triage_input_def)




text \<open>
  C10. \<^verbatim>\<open>from_dict\<close> after \<^verbatim>\<open>asdict\<close> gives the response back, whatever its fields
  hold, with or without usage and next action; and on a dictionary without the key
  \<open>status\<close>, a response that \<^verbatim>\<open>from_dict\<close> builds has status \<open>error\<close>.
\<close>

theorem from_dict_asdict_roundtrip:
  "from_dict (asdict r) = Some r
   \<and> (map_of data ''status'' = None \<longrightarrow>
        (\<forall>r'. from_dict data = Some r' \<longrightarrow> status r' = JStr ''error''))"
proof
  show "from_dict (asdict r) = Some r"
    by (cases r)
      (simp add: from_dict_def asdict_def dict_get_def asdict_token_usage_def
        asdict_next_action_def TokenUsage_kwargs_def NextAction_kwargs_def
        split: option.splits)
next
  show "map_of data ''status'' = None \<longrightarrow>
        (\<forall>r'. from_dict data = Some r' \<longrightarrow> status r' = JStr ''error'')"
    using from_dict_status [of data] by (simp add: dict_get_def)
qed

text \<open>
  C10 on a response with usage and next action, on one with neither, and on a
  dictionary without status.
\<close>

theorem from_dict_asdict_roundtrip_witness:
  "from_dict (asdict example_response) = Some example_response
   \<and> from_dict (asdict (AgentResponse (JStr ''success'') (JList []))) =
       Some (AgentResponse (JStr ''success'') (JList []))
   \<and> map_of [(''responses'', JList [])] ''status'' = None
   \<and> from_dict [(''responses'', JList [])] = Some (AgentResponse (JStr ''error'') (JList []))
   \<and> status (AgentResponse (JStr ''error'') (JList [])) = JStr ''error''"
proof -
  note rt = from_dict_asdict_roundtrip [of example_response "[(''responses'', JList [])]"]
  have a: "from_dict (asdict example_response) = Some example_response"
    using rt by (rule conjunct1)
  have b: "from_dict (asdict (AgentResponse (JStr ''success'') (JList []))) =
       Some (AgentResponse (JStr ''success'') (JList []))"
    using from_dict_asdict_roundtrip [of "AgentResponse (JStr ''success'') (JList [])" "[]"]
    by (rule conjunct1)
  have m: "map_of [(''responses'', JList [])] ''status'' = None"
    by simp
  have f: "from_dict [(''responses'', JList [])] = Some (AgentResponse (JStr ''error'') (JList []))"
    by (simp add: from_dict_def dict_get_def AgentResponse_def)
  have s: "status (AgentResponse (JStr ''error'') (JList [])) = JStr ''error''"
    using rt m f by blast
  from a b m f s show ?thesis by blast
qed

end
